theory Spec2Isabelle
  imports Main "HOL-Library.Sublist" "HOL-Library.Code_Target_Nat"
begin

section \<open>Python strings as lists of code points\<close>

text \<open>
  The repository is Python 3. A Python \<open>str\<close> is a sequence of Unicode code points:
  \<open>len\<close>, indexing, slicing and \<open>in\<close> all count code points. The clause texts are
  Chinese, so a string is modelled as a list of code points (natural numbers), never as a
  list of bytes. Literals of the source are written as lists of hexadecimal code points;
  ASCII literals go through \<open>asc\<close>.
\<close>

type_synonym ustr = "nat list"

definition asc :: "string \<Rightarrow> ustr" where
  "asc s = map of_char s"

datatype py_error = ValueError | IndexError | KeyError

subsection \<open>Character classes of the interpreter\<close>

text \<open>
  \<open>str.isdigit\<close>, \<open>str.strip\<close>, \<open>str.split()\<close>, \<open>int\<close> and the classes \<open>\d\<close> and
  \<open>\s\<close> of \<open>re\<close> read the Unicode character database of the interpreter. The tables
  below are those of Unicode 14.0 (CPython 3.11): the ranges of decimal digits (general
  category Nd; every range starts at a digit zero, so the value of a digit is its offset in
  the range modulo ten), the further characters that \<open>isdigit\<close> accepts (superscripts,
  circled digits and the like), and the white space characters.
\<close>

definition decimal_ranges :: "(nat \<times> nat) list" where
  "decimal_ranges =
     [(0x30, 0x39), (0x660, 0x669), (0x6F0, 0x6F9), (0x7C0, 0x7C9), (0x966, 0x96F),
      (0x9E6, 0x9EF), (0xA66, 0xA6F), (0xAE6, 0xAEF), (0xB66, 0xB6F), (0xBE6, 0xBEF),
      (0xC66, 0xC6F), (0xCE6, 0xCEF), (0xD66, 0xD6F), (0xDE6, 0xDEF), (0xE50, 0xE59),
      (0xED0, 0xED9), (0xF20, 0xF29), (0x1040, 0x1049), (0x1090, 0x1099), (0x17E0, 0x17E9),
      (0x1810, 0x1819), (0x1946, 0x194F), (0x19D0, 0x19D9), (0x1A80, 0x1A89), (0x1A90, 0x1A99),
      (0x1B50, 0x1B59), (0x1BB0, 0x1BB9), (0x1C40, 0x1C49), (0x1C50, 0x1C59), (0xA620, 0xA629),
      (0xA8D0, 0xA8D9), (0xA900, 0xA909), (0xA9D0, 0xA9D9), (0xA9F0, 0xA9F9), (0xAA50, 0xAA59),
      (0xABF0, 0xABF9), (0xFF10, 0xFF19), (0x104A0, 0x104A9), (0x10D30, 0x10D39), (0x11066, 0x1106F),
      (0x110F0, 0x110F9), (0x11136, 0x1113F), (0x111D0, 0x111D9), (0x112F0, 0x112F9), (0x11450, 0x11459),
      (0x114D0, 0x114D9), (0x11650, 0x11659), (0x116C0, 0x116C9), (0x11730, 0x11739), (0x118E0, 0x118E9),
      (0x11950, 0x11959), (0x11C50, 0x11C59), (0x11D50, 0x11D59), (0x11DA0, 0x11DA9), (0x16A60, 0x16A69),
      (0x16AC0, 0x16AC9), (0x16B50, 0x16B59), (0x1D7CE, 0x1D7FF), (0x1E140, 0x1E149), (0x1E2F0, 0x1E2F9),
      (0x1E950, 0x1E959), (0x1FBF0, 0x1FBF9)]"

definition other_digit_ranges :: "(nat \<times> nat) list" where
  "other_digit_ranges =
     [(0xB2, 0xB3), (0xB9, 0xB9), (0x1369, 0x1371), (0x19DA, 0x19DA), (0x2070, 0x2070),
      (0x2074, 0x2079), (0x2080, 0x2089), (0x2460, 0x2468), (0x2474, 0x247C), (0x2488, 0x2490),
      (0x24EA, 0x24EA), (0x24F5, 0x24FD), (0x24FF, 0x24FF), (0x2776, 0x277E), (0x2780, 0x2788),
      (0x278A, 0x2792), (0x10A40, 0x10A43), (0x10E60, 0x10E68), (0x11052, 0x1105A), (0x1F100, 0x1F10A)]"

definition space_ranges :: "(nat \<times> nat) list" where
  "space_ranges =
     [(0x9, 0xD), (0x1C, 0x20), (0x85, 0x85), (0xA0, 0xA0), (0x1680, 0x1680),
      (0x2000, 0x200A), (0x2028, 0x2029), (0x202F, 0x202F), (0x205F, 0x205F), (0x3000, 0x3000)]"

definition in_ranges :: "(nat \<times> nat) list \<Rightarrow> nat \<Rightarrow> bool" where
  "in_ranges rs c = list_ex (\<lambda>(lo, hi). lo \<le> c \<and> c \<le> hi) rs"

definition isdecimal_ch :: "nat \<Rightarrow> bool" where
  "isdecimal_ch c = in_ranges decimal_ranges c"

definition isdigit_ch :: "nat \<Rightarrow> bool" where
  "isdigit_ch c = (in_ranges decimal_ranges c \<or> in_ranges other_digit_ranges c)"

definition isspace_ch :: "nat \<Rightarrow> bool" where
  "isspace_ch c = in_ranges space_ranges c"

definition decimal_value :: "nat \<Rightarrow> nat" where
  "decimal_value c =
     (case find (\<lambda>(lo, hi). lo \<le> c \<and> c \<le> hi) decimal_ranges of
        Some (lo, hi) \<Rightarrow> (c - lo) mod 10
      | None \<Rightarrow> 0)"

subsection \<open>String operations\<close>

text \<open>\<open>sub in s\<close>: \<open>sub\<close> occurs in \<open>s\<close> as a contiguous block.\<close>

fun str_in :: "ustr \<Rightarrow> ustr \<Rightarrow> bool" where
  "str_in sub [] = (sub = [])"
| "str_in sub (c # cs) = (prefix sub (c # cs) \<or> str_in sub cs)"

text \<open>\<open>s.find(sub)\<close>: the least index of an occurrence; \<open>None\<close> stands for \<open>-1\<close>.\<close>

fun py_find :: "ustr \<Rightarrow> ustr \<Rightarrow> nat option" where
  "py_find sub [] = (if sub = [] then Some 0 else None)"
| "py_find sub (c # cs) =
     (if prefix sub (c # cs) then Some 0 else map_option Suc (py_find sub cs))"

text \<open>
  \<open>s[s.find(sub):]\<close>: the slice from the index that \<open>find\<close> returns. When \<open>sub\<close> does
  not occur the index is \<open>-1\<close> and the slice is the last character of \<open>s\<close> (empty for
  the empty string).
\<close>

definition slice_from_find :: "ustr \<Rightarrow> ustr \<Rightarrow> ustr" where
  "slice_from_find sub s =
     (case py_find sub s of Some i \<Rightarrow> drop i s | None \<Rightarrow> drop (length s - 1) s)"

text \<open>\<open>s.isdigit()\<close>: non-empty and every character is a digit.\<close>

definition isdigit :: "ustr \<Rightarrow> bool" where
  "isdigit s = (s \<noteq> [] \<and> list_all isdigit_ch s)"

text \<open>\<open>s.strip()\<close> removes white space at both ends.\<close>

definition py_strip :: "ustr \<Rightarrow> ustr" where
  "py_strip s = rev (dropWhile isspace_ch (rev (dropWhile isspace_ch s)))"

text \<open>
  \<open>s.split(sep)\<close> for a non-empty separator: occurrences are found from the left and
  do not overlap; \<open>n\<close> occurrences give \<open>n + 1\<close> pieces. (Python raises on an empty
  separator; every separator of the source is a non-empty literal.)
\<close>

fun py_split :: "ustr \<Rightarrow> ustr \<Rightarrow> ustr list" where
  "py_split sep [] = [[]]"
| "py_split sep (c # cs) =
     (if sep \<noteq> [] \<and> prefix sep (c # cs)
      then [] # py_split sep (drop (length sep) (c # cs))
      else (case py_split sep cs of [] \<Rightarrow> [[c]] | p # ps \<Rightarrow> (c # p) # ps))"

text \<open>\<open>s.split(sep, 1)\<close>: at most one cut, at the first occurrence.\<close>

fun py_split1 :: "ustr \<Rightarrow> ustr \<Rightarrow> ustr list" where
  "py_split1 sep [] = [[]]"
| "py_split1 sep (c # cs) =
     (if sep \<noteq> [] \<and> prefix sep (c # cs)
      then [[], drop (length sep) (c # cs)]
      else (case py_split1 sep cs of [] \<Rightarrow> [[c]] | p # ps \<Rightarrow> (c # p) # ps))"

text \<open>\<open>s.split()\<close>: the maximal runs of characters that are not white space.\<close>

function py_split_ws :: "ustr \<Rightarrow> ustr list" where
  "py_split_ws [] = []"
| "py_split_ws (c # cs) =
     (if isspace_ch c then py_split_ws cs
      else takeWhile (\<lambda>x. \<not> isspace_ch x) (c # cs)
             # py_split_ws (dropWhile (\<lambda>x. \<not> isspace_ch x) cs))"
  by pat_completeness auto
termination
  by (relation "measure length") (auto simp: le_imp_less_Suc length_dropWhile_le)

text \<open>\<open>sep.join(parts)\<close>.\<close>

fun py_join :: "ustr \<Rightarrow> ustr list \<Rightarrow> ustr" where
  "py_join sep [] = []"
| "py_join sep [p] = p"
| "py_join sep (p # q # ps) = p @ sep @ py_join sep (q # ps)"

text \<open>
  \<open>s.replace(old, new)\<close>: every occurrence of \<open>old\<close>, found from the left without
  overlap, is replaced. For the empty \<open>old\<close> Python inserts \<open>new\<close> around every character.
\<close>

fun py_replace :: "ustr \<Rightarrow> ustr \<Rightarrow> ustr \<Rightarrow> ustr" where
  "py_replace old new [] = (if old = [] then new else [])"
| "py_replace old new (c # cs) =
     (if old = [] then new @ c # py_replace old new cs
      else if prefix old (c # cs) then new @ py_replace old new (drop (length old) (c # cs))
      else c # py_replace old new cs)"

text \<open>\<open>str(n)\<close> and \<open>f"{n}"\<close> for an integer: the decimal numeral, with a minus sign.\<close>

fun str_of_nat :: "nat \<Rightarrow> ustr" where
  "str_of_nat n = (if n < 10 then [48 + n] else str_of_nat (n div 10) @ [48 + n mod 10])"

declare str_of_nat.simps [simp del]

definition str_of_int :: "int \<Rightarrow> ustr" where
  "str_of_int i = (if i < 0 then 45 # str_of_nat (nat (- i)) else str_of_nat (nat i))"

text \<open>
  \<open>int(s)\<close> for a string in base ten: white space at both ends is dropped, one sign is
  allowed, then come decimal digits of any script, where single underscores may stand
  between digits. Anything else raises \<open>ValueError\<close>, modelled as \<open>None\<close>. The white
  space that \<open>int\<close> drops is that of \<open>str.strip\<close> without the four separator
  characters U+001C to U+001F. (The interpreter's configurable limit on the number of
  digits is not modelled.)
\<close>

definition isspace_int :: "nat \<Rightarrow> bool" where
  "isspace_int c = (isspace_ch c \<and> \<not> (0x1C \<le> c \<and> c \<le> 0x1F))"

fun int_body_ok :: "ustr \<Rightarrow> bool" where
  "int_body_ok [] = False"
| "int_body_ok [c] = isdecimal_ch c"
| "int_body_ok (c # d # cs) =
     (isdecimal_ch c \<and> (if d = 0x5F then int_body_ok cs else int_body_ok (d # cs)))"

definition digits_value :: "ustr \<Rightarrow> nat" where
  "digits_value s = foldl (\<lambda>acc c. 10 * acc + decimal_value c) 0 (filter (\<lambda>c. c \<noteq> 0x5F) s)"

definition py_int :: "ustr \<Rightarrow> int option" where
  "py_int s =
     (let t = rev (dropWhile isspace_int (rev (dropWhile isspace_int s)));
          neg = (t \<noteq> [] \<and> hd t = 0x2D);
          body = (if t \<noteq> [] \<and> (hd t = 0x2B \<or> hd t = 0x2D) then tl t else t)
      in if int_body_ok body
         then Some (if neg then - int (digits_value body) else int (digits_value body))
         else None)"

text \<open>
  Values whose Python type is not fixed by the code: \<open>convert_chinese_num\<close> returns an
  integer or hands its argument back, and \<open>has_cumulative_limit\<close> may return \<open>None\<close>.
  \<open>py_str\<close> is \<open>str(v)\<close> (what an f-string prints), \<open>truthy\<close> is the value as a condition.
\<close>

datatype pyval = PNone | PInt int | PStr ustr

fun py_str :: "pyval \<Rightarrow> ustr" where
  "py_str PNone = asc ''None''"
| "py_str (PInt i) = str_of_int i"
| "py_str (PStr s) = s"

fun truthy :: "pyval \<Rightarrow> bool" where
  "truthy PNone = False"
| "truthy (PInt i) = (i \<noteq> 0)"
| "truthy (PStr s) = (s \<noteq> [])"

text \<open>An optional integer field of a JSON object, printed by an f-string.\<close>

definition str_of_opt_int :: "int option \<Rightarrow> ustr" where
  "str_of_opt_int v = (case v of None \<Rightarrow> asc ''None'' | Some i \<Rightarrow> str_of_int i)"

subsection \<open>Regular expressions\<close>

text \<open>
  The patterns of the source use literals, character classes, repetition of a character
  class (greedy or lazy, with bounds), optional parts and capturing groups. \<open>re\<close> matches by
  backtracking: the alternatives at every choice point are tried in a fixed order (greedy
  repetition: longest first; lazy: shortest first; an optional part: present first), and
  the first complete match wins. \<open>ms r s\<close> lists, in exactly that order, every way in
  which \<open>r\<close> matches at the start of \<open>s\<close>: the captured groups and the rest of the string.
  \<open>re.search\<close> takes the first way at the leftmost position that has one.
\<close>

datatype cls = Dot | Digit | Space | OneOf ustr | OneOfOrDigit ustr

fun cls_ok :: "cls \<Rightarrow> nat \<Rightarrow> bool" where
  "cls_ok Dot c = (c \<noteq> 0x0A)"
| "cls_ok Digit c = isdecimal_ch c"
| "cls_ok Space c = isspace_ch c"
| "cls_ok (OneOf cs) c = (c \<in> set cs)"
| "cls_ok (OneOfOrDigit cs) c = (c \<in> set cs \<or> isdecimal_ch c)"

datatype re =
    Lit ustr
  | Ch cls
  | Rep cls nat "nat option" bool
  | Cat re re
  | Opt re
  | Grp re

fun ms :: "re \<Rightarrow> ustr \<Rightarrow> (ustr list \<times> ustr) list" where
  "ms (Lit l) s = (if prefix l s then [([], drop (length l) s)] else [])"
| "ms (Ch c) s = (case s of [] \<Rightarrow> [] | x # t \<Rightarrow> if cls_ok c x then [([], t)] else [])"
| "ms (Rep c lo hi greedy) s =
     (let n = length (takeWhile (cls_ok c) s);
          m = (case hi of None \<Rightarrow> n | Some h \<Rightarrow> min h n);
          ks = [lo..<Suc m]
      in map (\<lambda>k. ([], drop k s)) (if greedy then rev ks else ks))"
| "ms (Cat a b) s =
     concat (map (\<lambda>(c1, r1). map (\<lambda>(c2, r2). (c1 @ c2, r2)) (ms b r1)) (ms a s))"
| "ms (Opt a) s = ms a s @ [([], s)]"
| "ms (Grp a) s = map (\<lambda>(c, r). (take (length s - length r) s # c, r)) (ms a s)"

fun re_search :: "re \<Rightarrow> ustr \<Rightarrow> ustr list option" where
  "re_search r [] = (case ms r [] of [] \<Rightarrow> None | (c, _) # _ \<Rightarrow> Some c)"
| "re_search r (x # t) =
     (case ms r (x # t) of [] \<Rightarrow> re_search r t | (c, _) # _ \<Rightarrow> Some c)"

text \<open>\<open>m.group(1)\<close> of a pattern with one capturing group.\<close>

definition group1 :: "ustr list \<Rightarrow> ustr" where
  "group1 gs = (case gs of [] \<Rightarrow> [] | g # _ \<Rightarrow> g)"

definition re_found :: "re \<Rightarrow> ustr \<Rightarrow> bool" where
  "re_found r s = (re_search r s \<noteq> None)"

text \<open>Shorthands: \<open>.*\<close>, \<open>.*?\<close>, \<open>.{1,3}\<close>, \<open>\d+\<close>, \<open>\s*\<close>, and a sequence of parts.\<close>

abbreviation dot_star :: re where "dot_star \<equiv> Rep Dot 0 None True"
abbreviation dot_star_lazy :: re where "dot_star_lazy \<equiv> Rep Dot 0 None False"
abbreviation dot_1_3 :: re where "dot_1_3 \<equiv> Rep Dot 1 (Some 3) True"
abbreviation digits1 :: re where "digits1 \<equiv> Rep Digit 1 None True"
abbreviation spaces0 :: re where "spaces0 \<equiv> Rep Space 0 None True"

fun cats :: "re list \<Rightarrow> re" where
  "cats [] = Lit []"
| "cats [r] = r"
| "cats (r # rs) = Cat r (cats rs)"

text \<open>\<open>\d+(?:\.\d+)?\<close>: a decimal number.\<close>

abbreviation re_number :: re where
  "re_number \<equiv> Cat digits1 (Opt (Cat (Lit [0x2E]) digits1))"

text \<open>The Chinese numerals one to ten ([U+4E00 U+4E8C U+4E09 U+56DB U+4E94 U+516D U+4E03 U+516B U+4E5D U+5341]), as a character class.\<close>

abbreviation cn_digits :: ustr where
  "cn_digits \<equiv> [0x4E00, 0x4E8C, 0x4E09, 0x56DB, 0x4E94, 0x516D, 0x4E03, 0x516B, 0x4E5D, 0x5341]"


section \<open>The data model: cases and payout stages\<close>

text \<open>
  The corpus is JSON; a case and its stages are Python dictionaries. Each dictionary is a
  record with one optional field per key that the code reads or writes: \<open>None\<close> means
  that the key is absent. The Chinese keys of a case are transliterated:
  \<open>xuhao\<close> ([U+5E8F U+53F7], the sequence number), \<open>chanpin_bianma\<close> ([U+4EA7 U+54C1 U+7F16 U+7801], product
  code), \<open>baodan_id\<close> ([U+4FDD U+5355]ID[U+53F7], policy document id), \<open>leixing\<close>
  ([U+9669 U+79CD U+7C7B U+578B] or [U+8D23 U+4EFB U+7C7B U+578B], coverage type), \<open>zeren_mingcheng\<close> ([U+8D23 U+4EFB U+540D U+79F0],
  coverage name) and \<open>zeren_yuanwen\<close> ([U+8D23 U+4EFB U+539F U+6587], the clause text).
  The extractor writes an age condition with the keys \<open>ageType\<close>, \<open>operator\<close>, \<open>age\<close>,
  \<open>maxAge\<close> and a policy-year range with \<open>minYear\<close>, \<open>maxYear\<close>; the validator and the
  fixers read \<open>limit\<close>, \<open>operator\<close> and \<open>start\<close>, \<open>end\<close>. The records carry all of them.
\<close>

record age_condition =
  ac_ageType :: "ustr option"
  ac_operator :: "ustr option"
  ac_age :: "int option"
  ac_maxAge :: "int option"
  ac_limit :: "int option"

record policy_year_range =
  pyr_minYear :: "int option"
  pyr_maxYear :: "int option"
  pyr_start :: "int option"
  pyr_end :: "int option"

record continuous_payment =
  cp_type :: "ustr option"
  cp_totalCount :: "int option"
  cp_frequency :: "ustr option"

record stage =
  stageNumber :: "int option"
  period :: "ustr option"
  waitingPeriodStatus :: "ustr option"
  paymentPeriodStatus :: "ustr option"
  formula :: "ustr option"
  naturalLanguageDescription :: "ustr option"
  ageConditions :: "age_condition list option"
  policyYearRange :: "policy_year_range option"
  continuousPayment :: "continuous_payment option"
  stage_note :: "ustr option"

record pcase =
  xuhao :: "int option"
  chanpin_bianma :: "ustr option"
  baodan_id :: "ustr option"
  leixing :: "ustr option"
  zeren_mingcheng :: "ustr option"
  zeren_yuanwen :: "ustr option"
  payoutAmount :: "stage list option"
  case_note :: "ustr option"
  case_naturalLanguageDescription :: "ustr option"

definition empty_stage :: stage where
  "empty_stage = \<lparr>stageNumber = None, period = None, waitingPeriodStatus = None,
     paymentPeriodStatus = None, formula = None, naturalLanguageDescription = None,
     ageConditions = None, policyYearRange = None, continuousPayment = None, stage_note = None\<rparr>"

definition empty_case :: pcase where
  "empty_case = \<lparr>xuhao = None, chanpin_bianma = None, baodan_id = None, leixing = None,
     zeren_mingcheng = None, zeren_yuanwen = None, payoutAmount = None, case_note = None,
     case_naturalLanguageDescription = None\<rparr>"

text \<open>
  \<open>d.get(key, '')\<close> for a string field, \<open>d.get(key, [])\<close> for a list field, and a
  value used as a condition: a string or a list is true when it is not empty, an integer
  when it is not zero, a dictionary when it has a key; an absent value (\<open>None\<close>) is false.
\<close>

definition get_str :: "ustr option \<Rightarrow> ustr" where
  "get_str v = (case v of None \<Rightarrow> [] | Some s \<Rightarrow> s)"

definition get_list :: "'a list option \<Rightarrow> 'a list" where
  "get_list v = (case v of None \<Rightarrow> [] | Some xs \<Rightarrow> xs)"

definition true_str :: "ustr option \<Rightarrow> bool" where
  "true_str v = (case v of None \<Rightarrow> False | Some s \<Rightarrow> s \<noteq> [])"

definition true_int :: "int option \<Rightarrow> bool" where
  "true_int v = (case v of None \<Rightarrow> False | Some i \<Rightarrow> i \<noteq> 0)"

definition pyr_nonempty :: "policy_year_range \<Rightarrow> bool" where
  "pyr_nonempty r = (pyr_minYear r \<noteq> None \<or> pyr_maxYear r \<noteq> None
                      \<or> pyr_start r \<noteq> None \<or> pyr_end r \<noteq> None)"

definition cp_nonempty :: "continuous_payment \<Rightarrow> bool" where
  "cp_nonempty c = (cp_type c \<noteq> None \<or> cp_totalCount c \<noteq> None \<or> cp_frequency c \<noteq> None)"

section \<open>tools/utils/validators.py\<close>

subsection \<open>convert_chinese_num\<close>

text \<open>
  The table maps the single numerals [U+4E00 U+4E8C U+4E09 U+56DB U+4E94 U+516D U+4E03 U+516B U+4E5D U+5341] to 1..10. A key of the
  table gives its number; a string of digits gives \<open>int(cn)\<close>, which raises for a digit
  that is not decimal (a superscript two, say); any other string is handed back unchanged
  (the source's comment: "in the other cases return the original value").
\<close>

definition cn_num_map :: "(ustr \<times> int) list" where
  "cn_num_map =
     [([0x4E00], 1), ([0x4E8C], 2), ([0x4E09], 3), ([0x56DB], 4), ([0x4E94], 5),
      ([0x516D], 6), ([0x4E03], 7), ([0x516B], 8), ([0x4E5D], 9), ([0x5341], 10)]"

definition convert_chinese_num :: "ustr \<Rightarrow> py_error + pyval" where
  "convert_chinese_num cn =
     (case map_of cn_num_map cn of
        Some v \<Rightarrow> Inr (PInt v)
      | None \<Rightarrow>
          if isdigit cn
          then (case py_int cn of Some i \<Rightarrow> Inr (PInt i) | None \<Rightarrow> Inl ValueError)
          else Inr (PStr cn))"

subsection \<open>has_cumulative_limit\<close>

text \<open>
  The pattern is [U+7D2F U+8BA1 U+7ED9 U+4ED8 U+4EE5] \<open>([\<close>[U+4E00 U+4E8C U+4E09 U+56DB U+4E94 U+516D U+4E03 U+516B U+4E5D U+5341]\<open>\d]+)\<close> [U+6B21 U+4E3A U+9650]
  ("cumulative payment is limited to N times"). The result is \<open>None\<close> without a match,
  else the converted count.
\<close>

definition re_cumulative_limit :: re where
  "re_cumulative_limit =
     cats [Lit [0x7D2F, 0x8BA1, 0x7ED9, 0x4ED8, 0x4EE5], Grp (Rep (OneOfOrDigit cn_digits) 1 None True), Lit [0x6B21, 0x4E3A, 0x9650]]"

definition has_cumulative_limit :: "ustr \<Rightarrow> py_error + pyval" where
  "has_cumulative_limit yuanwen =
     (case re_search re_cumulative_limit yuanwen of
        None \<Rightarrow> Inr PNone
      | Some gs \<Rightarrow>
          (case convert_chinese_num (group1 gs) of
             Inl e \<Rightarrow> Inl e
           | Inr (PStr s) \<Rightarrow>
               if isdigit s
               then (case py_int s of Some i \<Rightarrow> Inr (PInt i) | None \<Rightarrow> Inl ValueError)
               else Inr (PStr s)
           | Inr v \<Rightarrow> Inr v))"

subsection \<open>has_termination\<close>

text \<open>
  Five patterns for "pays the benefit ..., this contract (this liability) terminates":
  [U+7ED9 U+4ED8]\<open>.*\<close>[U+4FDD U+9669 U+91D1]\<open>[\<close>[U+FF0C]\<open>,].*\<close>[U+672C U+5408 U+540C U+7EC8 U+6B62],
  the same with [U+8D23 U+4EFB U+7EC8 U+6B62], [U+7ED9 U+4ED8]\<open>.*\<close>[U+4FDD U+9669 U+91D1 U+8D23 U+4EFB U+7EC8 U+6B62], and
  [U+6309]\<open>.*\<close>[U+7ED9 U+4ED8]\<open>.*[\<close>[U+FF0C]\<open>,].*\<close> followed by either ending.
\<close>

abbreviation comma_cls :: cls where
  "comma_cls \<equiv> OneOf [0xFF0C, 0x2C]"

definition termination_patterns :: "re list" where
  "termination_patterns =
     [cats [Lit [0x7ED9, 0x4ED8], dot_star, Lit [0x4FDD, 0x9669, 0x91D1], Ch comma_cls, dot_star, Lit [0x672C, 0x5408, 0x540C, 0x7EC8, 0x6B62]],
      cats [Lit [0x7ED9, 0x4ED8], dot_star, Lit [0x4FDD, 0x9669, 0x91D1], Ch comma_cls, dot_star, Lit [0x8D23, 0x4EFB, 0x7EC8, 0x6B62]],
      cats [Lit [0x7ED9, 0x4ED8], dot_star, Lit [0x4FDD, 0x9669, 0x91D1, 0x8D23, 0x4EFB, 0x7EC8, 0x6B62]],
      cats [Lit [0x6309], dot_star, Lit [0x7ED9, 0x4ED8], dot_star, Ch comma_cls, dot_star, Lit [0x672C, 0x5408, 0x540C, 0x7EC8, 0x6B62]],
      cats [Lit [0x6309], dot_star, Lit [0x7ED9, 0x4ED8], dot_star, Ch comma_cls, dot_star, Lit [0x8D23, 0x4EFB, 0x7EC8, 0x6B62]]]"

definition has_termination :: "ustr \<Rightarrow> bool" where
  "has_termination yuanwen = list_ex (\<lambda>p. re_found p yuanwen) termination_patterns"

subsection \<open>detect_payment_period\<close>

text \<open>
  "During the premium payment period" ([U+4EA4 U+8D39 U+671F] or [U+7F34 U+8D39 U+671F] followed by [U+5185] or
  [U+95F4], or [U+4EA4 U+8D39]/[U+7F34 U+8D39] \<open>.*\<close> [U+671F U+95F4 U+5C4A U+6EE1] \<open>.*\<close> [U+524D]) is looked for first,
  then "after it" ([U+4EA4 U+8D39 U+671F U+6EE1], [U+7F34 U+8D39 U+671F U+6EE1], and the forms ending in [U+540E] and
  [U+4EE5 U+540E]).
\<close>

definition patterns_during :: "re list" where
  "patterns_during =
     [cats [Lit [0x4EA4, 0x8D39, 0x671F], Ch (OneOf [0x5185, 0x95F4])],
      cats [Lit [0x7F34, 0x8D39, 0x671F], Ch (OneOf [0x5185, 0x95F4])],
      cats [Lit [0x4EA4, 0x8D39], dot_star, Lit [0x671F, 0x95F4, 0x5C4A, 0x6EE1], dot_star, Lit [0x524D]],
      cats [Lit [0x7F34, 0x8D39], dot_star, Lit [0x671F, 0x95F4, 0x5C4A, 0x6EE1], dot_star, Lit [0x524D]]]"

definition patterns_after :: "re list" where
  "patterns_after =
     [Lit [0x4EA4, 0x8D39, 0x671F, 0x6EE1],
      Lit [0x7F34, 0x8D39, 0x671F, 0x6EE1],
      cats [Lit [0x4EA4, 0x8D39], dot_star, Lit [0x671F, 0x95F4, 0x5C4A, 0x6EE1], dot_star, Lit [0x540E]],
      cats [Lit [0x7F34, 0x8D39], dot_star, Lit [0x671F, 0x95F4, 0x5C4A, 0x6EE1], dot_star, Lit [0x4EE5, 0x540E]]]"

definition detect_payment_period :: "ustr \<Rightarrow> ustr option" where
  "detect_payment_period yuanwen =
     (if list_ex (\<lambda>p. re_found p yuanwen) patterns_during then Some (asc ''during'')
      else if list_ex (\<lambda>p. re_found p yuanwen) patterns_after then Some (asc ''after'')
      else None)"

subsection \<open>check_description_completeness\<close>

text \<open>
  The six checks, in the source's order; each contributes at most one entry to the list
  of missing parts. The ratio of a formula is found by \<open>(\d+(?:\.\d+)?)\s*%\<close>.
\<close>

definition re_ratio :: re where
  "re_ratio = cats [Grp re_number, spaces0, Lit [0x25]]"

definition missing_waiting :: "stage \<Rightarrow> ustr \<Rightarrow> ustr list" where
  "missing_waiting st desc =
     (let waiting_status = waitingPeriodStatus st in
      if true_str waiting_status then
        (if waiting_status = Some (asc ''during'') \<and> \<not> str_in [0x7B49, 0x5F85, 0x671F, 0x5185] desc
         then [[0x7B49, 0x5F85, 0x671F, 0x5185]]
         else if waiting_status = Some (asc ''after'') \<and> \<not> str_in [0x7B49, 0x5F85, 0x671F, 0x540E] desc
                 \<and> \<not> str_in [0x7B49, 0x5F85, 0x671F] desc
         then [[0x7B49, 0x5F85, 0x671F, 0x540E]]
         else [])
      else [])"

definition missing_age :: "stage \<Rightarrow> ustr \<Rightarrow> ustr list" where
  "missing_age st desc =
     (let age_conditions = get_list (ageConditions st) in
      if age_conditions \<noteq> [] then
        (if list_ex (\<lambda>cond. str_in (str_of_opt_int (ac_limit cond) @ [0x5468, 0x5C81]) desc) age_conditions
         then [] else [[0x5E74, 0x9F84, 0x6761, 0x4EF6]])
      else [])"

definition missing_policy_year :: "stage \<Rightarrow> ustr \<Rightarrow> ustr list" where
  "missing_policy_year st desc =
     (case policyYearRange st of
        None \<Rightarrow> []
      | Some policy_year \<Rightarrow>
          if pyr_nonempty policy_year then
            (if str_in [0x4FDD, 0x5355, 0x5E74, 0x5EA6] desc \<or> str_in [0x5E74, 0x5EA6] desc then [] else [[0x4FDD, 0x5355, 0x5E74, 0x5EA6]])
          else [])"

definition missing_payment :: "stage \<Rightarrow> ustr \<Rightarrow> ustr list" where
  "missing_payment st desc =
     (let payment_status = paymentPeriodStatus st in
      if true_str payment_status then
        (if payment_status = Some (asc ''during'') \<and> \<not> str_in [0x4EA4, 0x8D39, 0x671F, 0x5185] desc
              \<and> \<not> str_in [0x7F34, 0x8D39, 0x671F, 0x5185] desc
         then [[0x4EA4, 0x8D39, 0x671F, 0x5185]]
         else if payment_status = Some (asc ''after'') \<and> \<not> str_in [0x4EA4, 0x8D39, 0x671F, 0x6EE1] desc
              \<and> \<not> str_in [0x7F34, 0x8D39, 0x671F, 0x6EE1] desc
         then [[0x4EA4, 0x8D39, 0x671F, 0x6EE1, 0x540E]]
         else [])
      else [])"

definition missing_continuous :: "stage \<Rightarrow> ustr \<Rightarrow> ustr list" where
  "missing_continuous st desc =
     (case continuousPayment st of
        None \<Rightarrow> []
      | Some cp \<Rightarrow>
          if cp_nonempty cp then
            (let total_count = str_of_opt_int (cp_totalCount cp) in
             if cp_type cp = Some (asc ''fixed_count'') \<and> true_int (cp_totalCount cp) then
               (if \<not> str_in ([0x5206] @ total_count @ [0x6B21]) desc
                   \<and> \<not> str_in ([0x5171] @ total_count @ [0x6B21]) desc
                then [[0x6301, 0x7EED, 0x7ED9, 0x4ED8] @ asc ''('' @ [0x5206] @ total_count @ [0x6B21] @ asc '')'']
                else [])
             else if cp_type cp = Some (asc ''until_termination'') then
               (if \<not> str_in [0x6301, 0x7EED, 0x7ED9, 0x4ED8] desc then [[0x6301, 0x7EED, 0x7ED9, 0x4ED8, 0x81F3, 0x5408, 0x540C, 0x7EC8, 0x6B62]] else [])
             else [])
          else [])"

definition missing_formula :: "stage \<Rightarrow> ustr \<Rightarrow> ustr list" where
  "missing_formula st desc =
     (let f = get_str (formula st) in
      if f \<noteq> [] \<and> \<not> str_in f desc then
        (case re_search re_ratio f of
           None \<Rightarrow> []
         | Some gs \<Rightarrow>
             if \<not> str_in (group1 gs) desc
             then [[0x8D54, 0x4ED8, 0x6BD4, 0x4F8B] @ asc ''('' @ group1 gs @ asc ''%)'']
             else [])
      else [])"

definition check_description_completeness :: "stage \<Rightarrow> ustr \<Rightarrow> bool \<times> ustr list" where
  "check_description_completeness st yuanwen =
     (let desc = get_str (naturalLanguageDescription st);
          missing = missing_waiting st desc @ missing_age st desc @ missing_policy_year st desc
                    @ missing_payment st desc @ missing_continuous st desc
                    @ missing_formula st desc
      in (missing = [], missing))"


section \<open>tools/utils/fixers.py\<close>

text \<open>
  A fixer mutates its argument and returns a flag (or a count). The model returns the
  result together with the new case or stage.
\<close>

subsection \<open>fix_cumulative_limit_note\<close>

text \<open>
  The added phrase is [U+7D2F U+8BA1 U+6700 U+591A U+8D54]N[U+6B21] ("pays at most N times in total"); the note
  counts as carrying it already when it has [U+7D2F U+8BA1] with [U+6B21] or N, or [U+6700 U+591A]
  with N. The phrase goes after the first part of a note that mentions [U+6BCF U+79CD] ("each
  kind"), else in front; parts are joined by the full-width semicolon U+FF1B.
\<close>

definition fix_cumulative_limit_note :: "pcase \<Rightarrow> py_error + (bool \<times> pcase)" where
  "fix_cumulative_limit_note c =
     (let yuanwen = get_str (zeren_yuanwen c);
          note = get_str (case_note c) in
      case has_cumulative_limit yuanwen of
        Inl e \<Rightarrow> Inl e
      | Inr leiji_cishu \<Rightarrow>
          if \<not> truthy leiji_cishu then Inr (False, c)
          else
            let n = py_str leiji_cishu;
                has_leiji = (str_in [0x7D2F, 0x8BA1] note \<and> (str_in [0x6B21] note \<or> str_in n note));
                has_zuiduo = (str_in [0x6700, 0x591A] note \<and> str_in n note)
            in if has_leiji \<or> has_zuiduo then Inr (False, c)
               else
                 let xinzeng = [0x7D2F, 0x8BA1, 0x6700, 0x591A, 0x8D54] @ n @ [0x6B21];
                     new_note =
                       (if note \<noteq> [] then
                          (if str_in [0x6BCF, 0x79CD] note then
                             (case py_split1 [0xFF1B] note of
                                p0 # p1 # _ \<Rightarrow> p0 @ [0xFF1B] @ xinzeng @ [0xFF1B] @ p1
                              | _ \<Rightarrow> note @ [0xFF1B] @ xinzeng)
                           else xinzeng @ [0xFF1B] @ note)
                        else xinzeng)
                 in Inr (True, c\<lparr>case_note := Some new_note\<rparr>))"

subsection \<open>fix_termination_note\<close>

text \<open>
  The note already limits the number of payouts when one of
  [U+7ED9 U+4ED8 U+4EE5]\<open>.{1,3}\<close>[U+6B21 U+4E3A U+9650], [U+9650 U+8D54]\<open>.{1,3}\<close>[U+6B21],
  [U+7D2F U+8BA1]\<open>[\<close>[U+6700 U+591A]\<open>]?\<close>[U+8D54]\<open>?\d+\<close>[U+6B21],
  [U+4EC5]\<open>[\<close>[U+9650]\<open>]?.{1,3}\<close>[U+6B21] is found in it. Otherwise
  [U+7ED9 U+4ED8 U+4EE5]1[U+6B21 U+4E3A U+9650] ("payment is limited to one time") is put in front.
\<close>

definition payout_limit_patterns :: "re list" where
  "payout_limit_patterns =
     [cats [Lit [0x7ED9, 0x4ED8, 0x4EE5], dot_1_3, Lit [0x6B21, 0x4E3A, 0x9650]],
      cats [Lit [0x9650, 0x8D54], dot_1_3, Lit [0x6B21]],
      cats [Lit [0x7D2F, 0x8BA1], Opt (Ch (OneOf [0x6700, 0x591A])), Opt (Lit [0x8D54]), digits1, Lit [0x6B21]],
      cats [Lit [0x4EC5], Opt (Ch (OneOf [0x9650])), dot_1_3, Lit [0x6B21]]]"

definition fix_termination_note :: "pcase \<Rightarrow> bool \<times> pcase" where
  "fix_termination_note c =
     (let yuanwen = get_str (zeren_yuanwen c);
          note = get_str (case_note c) in
      if \<not> has_termination yuanwen then (False, c)
      else if list_ex (\<lambda>p. re_found p note) payout_limit_patterns then (False, c)
      else
        let xinzeng = [0x7ED9, 0x4ED8, 0x4EE5, 0x31, 0x6B21, 0x4E3A, 0x9650];
            new_note = (if note \<noteq> [] then xinzeng @ [0xFF1B] @ note else xinzeng)
        in (True, c\<lparr>case_note := Some new_note\<rparr>))"

subsection \<open>fix_payment_period\<close>

text \<open>
  Every stage without the key \<open>paymentPeriodStatus\<close> gets the detected status; a
  non-empty description gets the label [U+4EA4 U+8D39 U+671F U+5185] or [U+4EA4 U+8D39 U+671F U+6EE1 U+540E], after
  [U+7B49 U+5F85 U+671F U+540E] when that occurs, else in front, joined by U+3001.
\<close>

definition fix_payment_period_stage :: "ustr \<Rightarrow> stage \<Rightarrow> stage" where
  "fix_payment_period_stage payment_status st =
     (let st1 = st\<lparr>paymentPeriodStatus := Some payment_status\<rparr>;
          old_desc = get_str (naturalLanguageDescription st) in
      if old_desc \<noteq> [] then
        (let payment_desc = (if payment_status = asc ''during'' then [0x4EA4, 0x8D39, 0x671F, 0x5185] else [0x4EA4, 0x8D39, 0x671F, 0x6EE1, 0x540E]);
             new_desc =
               (if str_in [0x7B49, 0x5F85, 0x671F, 0x540E] old_desc
                then py_replace [0x7B49, 0x5F85, 0x671F, 0x540E] ([0x7B49, 0x5F85, 0x671F, 0x540E, 0x3001] @ payment_desc) old_desc
                else payment_desc @ [0x3001] @ old_desc)
         in st1\<lparr>naturalLanguageDescription := Some new_desc\<rparr>)
      else st1)"

fun fix_payment_period_loop :: "ustr \<Rightarrow> stage list \<Rightarrow> nat \<times> stage list" where
  "fix_payment_period_loop payment_status [] = (0, [])"
| "fix_payment_period_loop payment_status (st # sts) =
     (let (n, sts') = fix_payment_period_loop payment_status sts in
      if paymentPeriodStatus st \<noteq> None then (n, st # sts')
      else (Suc n, fix_payment_period_stage payment_status st # sts'))"

definition fix_payment_period :: "pcase \<Rightarrow> nat \<times> pcase" where
  "fix_payment_period c =
     (case detect_payment_period (get_str (zeren_yuanwen c)) of
        None \<Rightarrow> (0, c)
      | Some payment_status \<Rightarrow>
          (case payoutAmount c of
             None \<Rightarrow> (0, c)
           | Some sts \<Rightarrow>
               let (n, sts') = fix_payment_period_loop payment_status sts
               in (n, c\<lparr>payoutAmount := Some sts'\<rparr>)))"

subsection \<open>fix_description_completeness\<close>

text \<open>
  For an incomplete description a new one is put together: the labels of the waiting
  period, the age conditions, the policy years and the payment period, joined by U+3001,
  then [U+786E U+8BCA U+FF0C] ("diagnosed,") and the payout phrase. The payout phrase is cut from
  the old description: from the first [U+6309] when the description mentions [U+8D54 U+4ED8],
  else from [U+9000 U+8FD8], else it is derived from the formula. A continuous payment wraps
  the phrase in [U+6BCF U+5E74] ... [U+FF08 U+5206]N[U+6B21 U+FF09] or
  [U+6BCF U+5E74] ... [U+FF0C U+6301 U+7EED U+7ED9 U+4ED8 U+81F3 U+5408 U+540C U+7EC8 U+6B62].
\<close>

definition age_part :: "age_condition \<Rightarrow> ustr list" where
  "age_part cond =
     (let limit = str_of_opt_int (ac_limit cond); operator = ac_operator cond in
      if operator = Some (asc ''<'') then [limit @ [0x5468, 0x5C81, 0x524D]]
      else if operator = Some (asc ''<='') then [limit @ [0x5468, 0x5C81, 0x53CA, 0x4EE5, 0x524D]]
      else if operator = Some (asc ''>'') then [limit @ [0x5468, 0x5C81, 0x540E]]
      else if operator = Some (asc ''>='') then [limit @ [0x5468, 0x5C81, 0x53CA, 0x4EE5, 0x4E0A]]
      else [])"

definition description_parts :: "stage \<Rightarrow> ustr list" where
  "description_parts st =
     (let waiting_status = waitingPeriodStatus st;
          payment_status = paymentPeriodStatus st in
      (if true_str waiting_status then
         (if waiting_status = Some (asc ''during'') then [[0x7B49, 0x5F85, 0x671F, 0x5185]]
          else if waiting_status = Some (asc ''after'') then [[0x7B49, 0x5F85, 0x671F, 0x540E]]
          else [])
       else [])
      @ concat (map age_part (get_list (ageConditions st)))
      @ (case policyYearRange st of
           None \<Rightarrow> []
         | Some policy_year \<Rightarrow>
             if pyr_nonempty policy_year then
               (let start = pyr_start policy_year; end = pyr_end policy_year in
                if true_int start \<and> true_int end
                then [[0x7B2C] @ str_of_opt_int start @ asc ''-'' @ str_of_opt_int end @ [0x4FDD, 0x5355, 0x5E74, 0x5EA6]]
                else if true_int start \<and> \<not> true_int end
                then [[0x7B2C] @ str_of_opt_int start @ [0x4FDD, 0x5355, 0x5E74, 0x5EA6, 0x8D77]]
                else [])
             else [])
      @ (if true_str payment_status then
           (if payment_status = Some (asc ''during'') then [[0x4EA4, 0x8D39, 0x671F, 0x5185]]
            else if payment_status = Some (asc ''after'') then [[0x4EA4, 0x8D39, 0x671F, 0x6EE1, 0x540E]]
            else [])
         else []))"

definition current_payout :: "stage \<Rightarrow> ustr \<Rightarrow> ustr" where
  "current_payout st desc =
     (if str_in [0x8D54, 0x4ED8] desc then slice_from_find [0x6309] desc
      else if str_in [0x9000, 0x8FD8] desc then slice_from_find [0x9000, 0x8FD8] desc
      else
        let f = get_str (formula st) in
        if str_in [0x5DF2, 0x4EA4, 0x4FDD, 0x8D39] f then [0x9000, 0x8FD8, 0x5DF2, 0x4EA4, 0x4FDD, 0x8D39]
        else if str_in (asc ''*'') f \<and> str_in (asc ''%'') f then
          (case re_search re_ratio f of
             None \<Rightarrow> []
           | Some gs \<Rightarrow> [0x6309, 0x57FA, 0x672C, 0x4FDD, 0x989D, 0x7684] @ group1 gs @ asc ''%'' @ [0x8D54, 0x4ED8])
        else [])"

definition fix_description_completeness :: "stage \<Rightarrow> ustr \<Rightarrow> ustr option" where
  "fix_description_completeness st yuanwen =
     (let (is_complete, missing) = check_description_completeness st yuanwen in
      if is_complete then None
      else
        let desc = get_str (naturalLanguageDescription st);
            joined = py_join [0x3001] (description_parts st);
            payout = current_payout st desc;
            plain = joined @ [0x786E, 0x8BCA, 0xFF0C] @ payout
        in Some
          (case continuousPayment st of
             None \<Rightarrow> plain
           | Some cp \<Rightarrow>
               if cp_nonempty cp then
                 (if cp_type cp = Some (asc ''fixed_count'')
                  then joined @ [0x786E, 0x8BCA, 0xFF0C, 0x6BCF, 0x5E74] @ payout
                         @ [0xFF08, 0x5206] @ str_of_opt_int (cp_totalCount cp) @ [0x6B21, 0xFF09]
                  else if cp_type cp = Some (asc ''until_termination'')
                  then joined @ [0x786E, 0x8BCA, 0xFF0C, 0x6BCF, 0x5E74] @ payout @ [0xFF0C, 0x6301, 0x7EED, 0x7ED9, 0x4ED8, 0x81F3, 0x5408, 0x540C, 0x7EC8, 0x6B62]
                  else plain)
               else plain))"

subsection \<open>remove_stage_level_note, add_continuous_payment_frequency\<close>

definition remove_stage_level_note :: "stage \<Rightarrow> bool \<times> stage" where
  "remove_stage_level_note st =
     (if stage_note st \<noteq> None then (True, st\<lparr>stage_note := None\<rparr>) else (False, st))"

text \<open>
  The frequency added is [U+5E74] ("year") for the two known types; for any other type
  nothing is written, and the function still reports a change.
\<close>

definition add_continuous_payment_frequency :: "stage \<Rightarrow> bool \<times> stage" where
  "add_continuous_payment_frequency st =
     (case continuousPayment st of
        None \<Rightarrow> (False, st)
      | Some cp \<Rightarrow>
          if \<not> cp_nonempty cp then (False, st)
          else if cp_frequency cp \<noteq> None then (False, st)
          else if cp_type cp = Some (asc ''fixed_count'')
                  \<or> cp_type cp = Some (asc ''until_termination'')
          then (True, st\<lparr>continuousPayment := Some (cp\<lparr>cp_frequency := Some [0x5E74]\<rparr>)\<rparr>)
          else (True, st))"

subsection \<open>fix_formula_format\<close>

text \<open>
  The four punctuation marks U+3001, U+FF0C, U+3002, U+FF1B are removed one after the
  other, then the multiplication sign U+00D7 and the letters x and X become an asterisk,
  then \<open>' '.join(s.split())\<close> turns every run of white space into one blank and drops
  it at both ends. The formula is written back only when it has changed.
\<close>

definition invalid_chars :: "ustr list" where
  "invalid_chars = [[0x3001], [0xFF0C], [0x3002], [0xFF1B]]"

definition normalize_formula :: "ustr \<Rightarrow> ustr" where
  "normalize_formula f =
     (let f1 = foldl (\<lambda>acc ch. py_replace ch [] acc) f invalid_chars;
          f2 = py_replace (asc ''X'') (asc ''*'')
                 (py_replace (asc ''x'') (asc ''*'') (py_replace [0xD7] (asc ''*'') f1))
      in py_join (asc '' '') (py_split_ws f2))"

definition fix_formula_format :: "stage \<Rightarrow> bool \<times> stage" where
  "fix_formula_format st =
     (let f = get_str (formula st) in
      if f = [] then (False, st)
      else
        let new_formula = normalize_formula f in
        if new_formula \<noteq> f then (True, st\<lparr>formula := Some new_formula\<rparr>) else (False, st))"

text \<open>
  The characters that a normalized formula must not contain: the four punctuation marks
  and the three multiplication signs that are rewritten to an asterisk.
\<close>

definition bad_chars :: "nat list" where
  "bad_chars = [0x3001, 0xFF0C, 0x3002, 0xFF1B, 0xD7, 0x78, 0x58]"


section \<open>tools/3_ai_reviewer.py\<close>

text \<open>
  A finding (an "issue") is a dictionary with a severity, a type, the sequence number and
  the name of the case, and for the checks on stages the one-based stage number. The
  message and the list of missing parts that some findings carry are report text that
  no repair reads; they are left out of the record.
\<close>

record issue =
  severity :: "ustr option"
  issue_type :: "ustr option"
  case_number :: "int option"
  case_name :: "ustr option"
  issue_stage :: "int option"

definition mk_issue :: "string \<Rightarrow> string \<Rightarrow> pcase \<Rightarrow> int option \<Rightarrow> issue" where
  "mk_issue sev ty c stg =
     \<lparr>severity = Some (asc sev), issue_type = Some (asc ty), case_number = xuhao c,
      case_name = zeren_mingcheng c, issue_stage = stg\<rparr>"

text \<open>\<open>enumerate(xs, 1)\<close>.\<close>

fun py_enumerate :: "int \<Rightarrow> 'a list \<Rightarrow> (int \<times> 'a) list" where
  "py_enumerate i [] = []"
| "py_enumerate i (x # xs) = (i, x) # py_enumerate (i + 1) xs"

subsection \<open>run_auto_checks\<close>

text \<open>
  Check 1 reports a missing cumulative limit when \<open>has_cumulative_limit\<close> gives a true
  value and the note does not contain both [U+7D2F U+8BA1] and [U+6B21]. Check 2 reports a
  missing termination note when the clause has a termination phrase and the note contains
  neither [U+6B21 U+4E3A U+9650] nor [U+6700 U+591A U+8D54]. Checks 3 to 6 go through the stages.
\<close>

definition check_cumulative :: "pcase \<Rightarrow> py_error + issue list" where
  "check_cumulative c =
     (case has_cumulative_limit (get_str (zeren_yuanwen c)) of
        Inl e \<Rightarrow> Inl e
      | Inr v \<Rightarrow>
          if truthy v then
            (let note = get_str (case_note c) in
             if \<not> (str_in [0x7D2F, 0x8BA1] note \<and> str_in [0x6B21] note)
             then Inr [mk_issue ''P1'' ''missing_cumulative_limit'' c None]
             else Inr [])
          else Inr [])"

definition check_termination :: "pcase \<Rightarrow> issue list" where
  "check_termination c =
     (if has_termination (get_str (zeren_yuanwen c)) then
        (let note = get_str (case_note c) in
         if \<not> (str_in [0x6B21, 0x4E3A, 0x9650] note \<or> str_in [0x6700, 0x591A, 0x8D54] note)
         then [mk_issue ''P1'' ''missing_termination_note'' c None]
         else [])
      else [])"

definition check_payment_period :: "pcase \<Rightarrow> issue list" where
  "check_payment_period c =
     (if detect_payment_period (get_str (zeren_yuanwen c)) \<noteq> None then
        concat (map (\<lambda>(stage_idx, st).
                  if paymentPeriodStatus st = None
                  then [mk_issue ''P2'' ''missing_payment_period'' c (Some stage_idx)]
                  else [])
                (py_enumerate 1 (get_list (payoutAmount c))))
      else [])"

definition check_descriptions :: "pcase \<Rightarrow> issue list" where
  "check_descriptions c =
     concat (map (\<lambda>(stage_idx, st).
               if \<not> fst (check_description_completeness st (get_str (zeren_yuanwen c)))
               then [mk_issue ''P2'' ''incomplete_description'' c (Some stage_idx)]
               else [])
             (py_enumerate 1 (get_list (payoutAmount c))))"

definition check_stage_notes :: "pcase \<Rightarrow> issue list" where
  "check_stage_notes c =
     concat (map (\<lambda>(stage_idx, st).
               if stage_note st \<noteq> None
               then [mk_issue ''P0'' ''stage_level_note'' c (Some stage_idx)]
               else [])
             (py_enumerate 1 (get_list (payoutAmount c))))"

definition check_frequency :: "pcase \<Rightarrow> issue list" where
  "check_frequency c =
     concat (map (\<lambda>(stage_idx, st).
               (case continuousPayment st of
                  None \<Rightarrow> []
                | Some cp \<Rightarrow>
                    if cp_nonempty cp \<and> cp_frequency cp = None
                    then [mk_issue ''P2'' ''missing_frequency'' c (Some stage_idx)]
                    else []))
             (py_enumerate 1 (get_list (payoutAmount c))))"

definition case_checks :: "pcase \<Rightarrow> py_error + issue list" where
  "case_checks c =
     (case check_cumulative c of
        Inl e \<Rightarrow> Inl e
      | Inr i1 \<Rightarrow>
          Inr (i1 @ check_termination c @ check_payment_period c @ check_descriptions c
               @ check_stage_notes c @ check_frequency c))"

fun run_auto_checks :: "pcase list \<Rightarrow> py_error + issue list" where
  "run_auto_checks [] = Inr []"
| "run_auto_checks (c # cs) =
     (case case_checks c of
        Inl e \<Rightarrow> Inl e
      | Inr is1 \<Rightarrow>
          (case run_auto_checks cs of Inl e \<Rightarrow> Inl e | Inr is2 \<Rightarrow> Inr (is1 @ is2)))"

subsection \<open>apply_fixes\<close>

text \<open>
  The findings are sorted by severity (P0, P1, P2; anything else counts as P2) with a
  stable sort. \<open>case_map\<close> is a dictionary from sequence number to case, so of several
  cases with one number the last is the one repaired; an empty case is skipped. The
  repairs mutate the cases of the corpus in place: the model rewrites the list.
\<close>

definition severity_order :: "issue \<Rightarrow> nat" where
  "severity_order x =
     (let s = (case severity x of None \<Rightarrow> asc ''P2'' | Some s \<Rightarrow> s) in
      if s = asc ''P0'' then 0 else if s = asc ''P1'' then 1 else 2)"

fun last_index :: "('a \<Rightarrow> bool) \<Rightarrow> 'a list \<Rightarrow> nat option" where
  "last_index P [] = None"
| "last_index P (x # xs) =
     (case last_index P xs of
        Some i \<Rightarrow> Some (Suc i)
      | None \<Rightarrow> if P x then Some 0 else None)"

definition case_nonempty :: "pcase \<Rightarrow> bool" where
  "case_nonempty c =
     (xuhao c \<noteq> None \<or> chanpin_bianma c \<noteq> None \<or> baodan_id c \<noteq> None \<or> leixing c \<noteq> None
      \<or> zeren_mingcheng c \<noteq> None \<or> zeren_yuanwen c \<noteq> None \<or> payoutAmount c \<noteq> None
      \<or> case_note c \<noteq> None \<or> case_naturalLanguageDescription c \<noteq> None)"

text \<open>
  \<open>stage_idx = issue.get('stage', 1) - 1\<close>, the guard \<open>stage_idx < len(stages)\<close> and the
  read \<open>stages[stage_idx]\<close>: a negative index passes the guard and counts from the end of
  the list; below \<open>-len(stages)\<close> the read raises \<open>IndexError\<close>. The result is the position
  read, or \<open>None\<close> when the guard fails.
\<close>

definition stage_idx_of :: "issue \<Rightarrow> int" where
  "stage_idx_of x = (case issue_stage x of None \<Rightarrow> 1 | Some s \<Rightarrow> s) - 1"

definition stage_position :: "stage list \<Rightarrow> int \<Rightarrow> py_error + nat option" where
  "stage_position stages stage_idx =
     (let n = int (length stages) in
      if stage_idx < n then
        (if 0 \<le> stage_idx then Inr (Some (nat stage_idx))
         else if - n \<le> stage_idx then Inr (Some (nat (stage_idx + n)))
         else Inl IndexError)
      else Inr None)"

definition fix_issue_on_case :: "issue \<Rightarrow> pcase \<Rightarrow> py_error + (bool \<times> pcase)" where
  "fix_issue_on_case x c =
     (let ty = issue_type x; stages = get_list (payoutAmount c); stage_idx = stage_idx_of x in
      if ty = Some (asc ''missing_cumulative_limit'') then fix_cumulative_limit_note c
      else if ty = Some (asc ''missing_termination_note'') then Inr (fix_termination_note c)
      else if ty = Some (asc ''missing_payment_period'') then
        (if stage_idx < int (length stages)
         then (let (fixed_stages, c') = fix_payment_period c in Inr (fixed_stages > 0, c'))
         else Inr (False, c))
      else if ty = Some (asc ''incomplete_description'') then
        (case stage_position stages stage_idx of
           Inl e \<Rightarrow> Inl e
         | Inr None \<Rightarrow> Inr (False, c)
         | Inr (Some j) \<Rightarrow>
             (case fix_description_completeness (stages ! j) (get_str (zeren_yuanwen c)) of
                None \<Rightarrow> Inr (False, c)
              | Some new_desc \<Rightarrow>
                  if new_desc \<noteq> [] then
                    Inr (True, c\<lparr>payoutAmount :=
                      Some (stages[j := (stages ! j)\<lparr>naturalLanguageDescription := Some new_desc\<rparr>])\<rparr>)
                  else Inr (False, c)))
      else if ty = Some (asc ''stage_level_note'') then
        (case stage_position stages stage_idx of
           Inl e \<Rightarrow> Inl e
         | Inr None \<Rightarrow> Inr (False, c)
         | Inr (Some j) \<Rightarrow>
             (let (fixed, st') = remove_stage_level_note (stages ! j) in
              Inr (fixed, if fixed then c\<lparr>payoutAmount := Some (stages[j := st'])\<rparr> else c)))
      else if ty = Some (asc ''missing_frequency'') then
        (case stage_position stages stage_idx of
           Inl e \<Rightarrow> Inl e
         | Inr None \<Rightarrow> Inr (False, c)
         | Inr (Some j) \<Rightarrow>
             (let (fixed, st') = add_continuous_payment_frequency (stages ! j) in
              Inr (fixed, if st' \<noteq> stages ! j then c\<lparr>payoutAmount := Some (stages[j := st'])\<rparr> else c)))
      else Inr (False, c))"

definition apply_fix :: "issue \<Rightarrow> pcase list \<Rightarrow> py_error + (bool \<times> pcase list)" where
  "apply_fix x cases =
     (case last_index (\<lambda>c. xuhao c = case_number x) cases of
        None \<Rightarrow> Inr (False, cases)
      | Some k \<Rightarrow>
          if \<not> case_nonempty (cases ! k) then Inr (False, cases)
          else (case fix_issue_on_case x (cases ! k) of
                  Inl e \<Rightarrow> Inl e
                | Inr (fixed, c') \<Rightarrow> Inr (fixed, cases[k := c'])))"

fun apply_sorted :: "issue list \<Rightarrow> pcase list \<Rightarrow> py_error + (nat \<times> pcase list)" where
  "apply_sorted [] cases = Inr (0, cases)"
| "apply_sorted (x # xs) cases =
     (case apply_fix x cases of
        Inl e \<Rightarrow> Inl e
      | Inr (fixed, cases') \<Rightarrow>
          (case apply_sorted xs cases' of
             Inl e \<Rightarrow> Inl e
           | Inr (n, cases'') \<Rightarrow> Inr ((if fixed then Suc n else n), cases'')))"

definition apply_fixes :: "issue list \<Rightarrow> pcase list \<Rightarrow> py_error + (nat \<times> pcase list)" where
  "apply_fixes issues cases = apply_sorted (sort_key severity_order issues) cases"


section \<open>fix_all_issues.py\<close>

subsection \<open>fix_case\<close>

text \<open>
  The notes of the stages are merged into the note of the case. A stage note is stripped
  and cut at the full-width semicolon U+FF1B; every part is stripped again. A part is
  dropped when it contains one of the fifteen exclusion markers ("filter out what should
  not be in a note": waiting period, diagnosis, refusal, termination, "according to",
  payout, dates, "first", "none", ...). Of the remaining parts only those with one of the
  eleven allowed keywords are kept (payout limits and counts, intervals, groups, waiver,
  extra payment). The note is deleted from the stage in every case. A continuous payment
  without a frequency gets [U+6BCF U+5E74 U+5BF9 U+5E94 U+65E5]. The parts kept, without repetitions and in the
  order of their first occurrence, joined by U+FF1B, become the note of the case,
  replacing any note the case had; when no part is kept the note of the case is left as
  it was. The function reports whether it changed anything.
\<close>

definition skip_markers :: "ustr list" where
  "skip_markers =
     [[0x7B49, 0x5F85, 0x671F], [0x56E0, 0x610F, 0x5916], [0x786E, 0x8BCA], [0x4E0D, 0x7ED9, 0x4ED8], [0x4E0D, 0x627F, 0x62C5],
      [0x8D23, 0x4EFB, 0x7EC8, 0x6B62], [0x672C, 0x9879], [0x6309], [0x8D54, 0x4ED8], [0x7ED9, 0x4ED8, 0x65E5],
      [0x5F53, 0x65E5], [0x9996, 0x6B21], [0x65E0], [0x5BF9, 0x5E94, 0x65E5], [0x521D, 0x6B21]]"

definition keep_keywords :: "ustr list" where
  "keep_keywords =
     [[0x9650, 0x8D54], [0x6700, 0x591A, 0x8D54], [0x7ED9, 0x4ED8, 0x4EE5], [0x6B21, 0x4E3A, 0x9650], [0x7D2F, 0x8BA1],
      [0x9700, 0x95F4, 0x9694], [0x9700, 0x5C5E, 0x4E8E], [0x4E0D, 0x540C, 0x7EC4], [0x540C, 0x7EC4],
      [0x8C41, 0x514D], [0x989D, 0x5916, 0x7ED9, 0x4ED8]]"

definition part_kept :: "ustr \<Rightarrow> bool" where
  "part_kept part =
     (\<not> list_ex (\<lambda>skip. str_in skip part) skip_markers
      \<and> list_ex (\<lambda>keyword. str_in keyword part) keep_keywords)"

definition filtered_parts :: "ustr \<Rightarrow> ustr list" where
  "filtered_parts note0 =
     (let note_content = py_strip note0 in
      if note_content \<noteq> []
      then filter part_kept (map py_strip (py_split [0xFF1B] note_content))
      else [])"

definition fix_case_frequency :: "stage \<Rightarrow> bool \<times> stage" where
  "fix_case_frequency st =
     (case continuousPayment st of
        None \<Rightarrow> (False, st)
      | Some cp \<Rightarrow>
          if cp_frequency cp = None
          then (True, st\<lparr>continuousPayment := Some (cp\<lparr>cp_frequency := Some [0x6BCF, 0x5E74, 0x5BF9, 0x5E94, 0x65E5]\<rparr>)\<rparr>)
          else (False, st))"

definition fix_case_stage :: "stage \<Rightarrow> ustr list \<times> bool \<times> stage" where
  "fix_case_stage st =
     (let (notes, fixed1, st1) =
            (case stage_note st of
               None \<Rightarrow> ([], False, st)
             | Some n \<Rightarrow> (filtered_parts n, True, st\<lparr>stage_note := None\<rparr>));
          (fixed2, st2) = fix_case_frequency st1
      in (notes, fixed1 \<or> fixed2, st2))"

fun fix_case_stages :: "stage list \<Rightarrow> ustr list \<times> bool \<times> stage list" where
  "fix_case_stages [] = ([], False, [])"
| "fix_case_stages (st # sts) =
     (let (notes, fixed, st') = fix_case_stage st;
          (all_notes, fixed', sts') = fix_case_stages sts
      in (notes @ all_notes, fixed \<or> fixed', st' # sts'))"

fun unique_notes :: "ustr list \<Rightarrow> ustr list \<Rightarrow> ustr list" where
  "unique_notes seen [] = []"
| "unique_notes seen (n # ns) =
     (if n \<in> set seen then unique_notes seen ns else n # unique_notes (n # seen) ns)"

definition fix_case :: "pcase \<Rightarrow> bool \<times> pcase" where
  "fix_case c =
     (let (fixed1, c1) =
            (if case_naturalLanguageDescription c \<noteq> None \<and> payoutAmount c \<noteq> None
             then (True, c\<lparr>case_naturalLanguageDescription := None\<rparr>)
             else (False, c))
      in case payoutAmount c1 of
           None \<Rightarrow> (fixed1, c1)
         | Some sts \<Rightarrow>
             (let (all_notes, fixed2, sts') = fix_case_stages sts;
                  c2 = c1\<lparr>payoutAmount := Some sts'\<rparr>
              in if all_notes \<noteq> []
                 then (True, c2\<lparr>case_note := Some (py_join [0xFF1B] (unique_notes [] all_notes))\<rparr>)
                 else (fixed1 \<or> fixed2, c2)))"

text \<open>
  The parts of the notes of a list of stages that pass the filter, in the order of the
  stages: what \<open>fix_case\<close> collects in \<open>all_notes\<close>.
\<close>

definition kept_parts :: "stage list \<Rightarrow> ustr list" where
  "kept_parts sts =
     concat (map (\<lambda>st. case stage_note st of None \<Rightarrow> [] | Some n \<Rightarrow> filtered_parts n) sts)"


section \<open>generate_batch14_complex.py\<close>

subsection \<open>chinese_to_num\<close>

text \<open>
  The table has the numerals zero to ten and hundred, and the words for 18, 20, 21, 25,
  30, 40, ..., 90 and 100. A string outside the table that contains [U+5341] (ten) is
  read by its shape: [U+5341]X is ten plus X, a string of length two is X times ten, a
  string of length three is X times ten plus Y; an unknown X or Y counts as zero, and
  the two last shapes give no value when the tens are zero.
\<close>

definition CHINESE_NUM_MAP :: "(ustr \<times> int) list" where
  "CHINESE_NUM_MAP =
     [([0x96F6], 0), ([0x4E00], 1), ([0x4E8C], 2), ([0x4E09], 3), ([0x56DB], 4),
      ([0x4E94], 5), ([0x516D], 6), ([0x4E03], 7), ([0x516B], 8), ([0x4E5D], 9),
      ([0x5341], 10), ([0x767E], 100),
      ([0x5341, 0x516B], 18), ([0x4E8C, 0x5341], 20), ([0x4E8C, 0x5341, 0x4E00], 21), ([0x4E8C, 0x5341, 0x4E94], 25),
      ([0x4E09, 0x5341], 30), ([0x56DB, 0x5341], 40), ([0x4E94, 0x5341], 50), ([0x516D, 0x5341], 60),
      ([0x4E03, 0x5341], 70), ([0x516B, 0x5341], 80), ([0x4E5D, 0x5341], 90),
      ([0x4E00, 0x767E], 100)]"

definition map_get0 :: "nat \<Rightarrow> int" where
  "map_get0 ch = (case map_of CHINESE_NUM_MAP [ch] of None \<Rightarrow> 0 | Some v \<Rightarrow> v)"

definition chinese_to_num :: "ustr \<Rightarrow> int option" where
  "chinese_to_num chinese_str =
     (if chinese_str = [] then None
      else case map_of CHINESE_NUM_MAP chinese_str of
        Some v \<Rightarrow> Some v
      | None \<Rightarrow>
          if str_in [0x5341] chinese_str then
            (if chinese_str = [0x5341] then Some 10
             else if prefix [0x5341] chinese_str then
               (let ones = map_get0 (chinese_str ! 1) in Some (10 + ones))
             else if length chinese_str = 2 then
               (let tens = map_get0 (chinese_str ! 0) in
                if tens > 0 then Some (tens * 10) else None)
             else if length chinese_str = 3 then
               (let tens = map_get0 (chinese_str ! 0); ones = map_get0 (chinese_str ! 2) in
                if tens > 0 then Some (tens * 10 + ones) else None)
             else map_of CHINESE_NUM_MAP chinese_str)
          else map_of CHINESE_NUM_MAP chinese_str)"


subsection \<open>extract_policy_year_range, extract_payment_period_status\<close>

text \<open>
  Four patterns, tried in order, for "before the N-th policy anniversary". \<open>int\<close> is
  applied to a group matched by \<open>\d+\<close>, a non-empty string of decimal digits, on which it
  is \<open>digits_value\<close>. The payment-period status is one of the two Chinese phrases
  [U+4EA4 U+8D39 U+671F U+5185] and [U+4EA4 U+8D39 U+671F U+6EE1].
\<close>

abbreviation open_paren :: cls where "open_paren \<equiv> OneOf [0xFF08, 0x28]"
abbreviation close_paren :: cls where "close_paren \<equiv> OneOf [0x29, 0xFF09]"

definition re_year_1 :: re where
  "re_year_1 = cats [Lit [0x7B2C], Grp digits1, Lit [0x4E2A, 0x4FDD, 0x9669, 0x5408, 0x540C, 0x5468, 0x5E74, 0x65E5], dot_star_lazy,
                     Ch open_paren, Lit [0x542B], Ch close_paren, dot_star_lazy, Ch (OneOf [0x524D, 0x4E4B])]"

definition re_year_2 :: re where
  "re_year_2 = cats [Lit [0x7B2C], Grp digits1, Lit [0x4E2A, 0x4FDD, 0x5355, 0x5468, 0x5E74, 0x65E5, 0x4E4B, 0x524D], Ch open_paren,
                     Lit [0x4E0D, 0x542B, 0x7B2C], digits1, Lit [0x4E2A, 0x4FDD, 0x5355, 0x5468, 0x5E74, 0x65E5], Ch close_paren]"

definition re_year_3 :: re where
  "re_year_3 = cats [Lit [0x7B2C], Grp digits1, Lit [0x4E2A, 0x4FDD, 0x5355, 0x5468, 0x5E74, 0x65E5, 0x524D]]"

definition re_year_4 :: re where
  "re_year_4 = cats [Lit [0x7B2C], Grp (Rep (OneOf cn_digits) 1 None True), Lit [0x4E2A, 0x4FDD, 0x5355, 0x5468, 0x5E74, 0x65E5, 0x524D]]"

definition year_range :: "int \<Rightarrow> policy_year_range" where
  "year_range maxYear =
     \<lparr>pyr_minYear = Some 1, pyr_maxYear = Some maxYear, pyr_start = None, pyr_end = None\<rparr>"

definition extract_policy_year_range :: "ustr \<Rightarrow> policy_year_range option" where
  "extract_policy_year_range text =
     (case re_search re_year_1 text of
        Some gs \<Rightarrow> Some (year_range (int (digits_value (group1 gs))))
      | None \<Rightarrow>
     (case re_search re_year_2 text of
        Some gs \<Rightarrow> Some (year_range (int (digits_value (group1 gs)) - 1))
      | None \<Rightarrow>
     (case re_search re_year_3 text of
        Some gs \<Rightarrow> Some (year_range (int (digits_value (group1 gs))))
      | None \<Rightarrow>
     (case re_search re_year_4 text of
        Some gs \<Rightarrow>
          (case chinese_to_num (group1 gs) of
             Some year \<Rightarrow> if year \<noteq> 0 then Some (year_range year) else None
           | None \<Rightarrow> None)
      | None \<Rightarrow> None))))"

definition extract_payment_period_status :: "ustr \<Rightarrow> ustr option" where
  "extract_payment_period_status text =
     (if str_in [0x4EA4, 0x8D39, 0x671F, 0x5185] text then Some [0x4EA4, 0x8D39, 0x671F, 0x5185]
      else if str_in [0x4EA4, 0x8D39, 0x671F, 0x6EE1] text \<or> str_in [0x4EA4, 0x8D39, 0x671F, 0x540E] text then Some [0x4EA4, 0x8D39, 0x671F, 0x6EE1]
      else None)"

section \<open>generate_batch14_final.py\<close>

subsection \<open>parse_remaining_case\<close>

text \<open>
  \<open>extract_age_conditions\<close> of generate_batch14_complex.py is a table of some sixty
  patterns; it returns a non-empty list of age conditions or \<open>None\<close>. No property below
  depends on which conditions it finds, so \<open>parse_remaining_case\<close> takes the extractor as
  its first argument and every theorem holds for every extractor.

  The formula is chosen by the first test that succeeds: (1) a table ([U+4E0B U+8868] or
  [U+8868 U+683C]); (2) premiums paid ([U+5DF2 U+4EA4 U+4FDD U+8D39], [U+5DF2 U+4EA4 U+7EB3] or [U+5DF2 U+652F U+4ED8 U+7684 U+4FDD U+9669 U+8D39]),
  which with a waiting-period marker ([U+7B49 U+5F85 U+671F U+5185], 180[U+65E5 U+5185] or 90[U+65E5 U+5185])
  returns a case of two stages at once; (3) cash value ([U+73B0 U+91D1 U+4EF7 U+503C]); (4) a percent
  sign; (5) the default.
\<close>

definition once_only :: "ustr \<Rightarrow> bool" where
  "once_only text =
     (str_in [0x9650, 0x4EA4, 0x4E00, 0x6B21] text \<or> str_in [0x4EC5, 0x7ED9, 0x4ED8, 0x4E00, 0x6B21] text
      \<or> str_in [0x9650, 0x7ED9, 0x4ED8, 0x4E00, 0x6B21] text \<or> str_in [0x4EE5, 0x4E00, 0x6B21, 0x4E3A, 0x9650] text)"

definition count_patterns :: "re list" where
  "count_patterns =
     [cats [Grp (Ch (OneOf cn_digits)), Lit [0x6B21, 0x4E3A, 0x9650]],
      cats [Lit [0x7D2F, 0x8BA1], dot_star_lazy, Grp (Ch (OneOf cn_digits)), Lit [0x6B21]],
      cats [Lit [0x7ED9, 0x4ED8], dot_star_lazy, Grp (Ch (OneOf cn_digits)), Lit [0x6B21]]]"

fun first_count_note :: "re list \<Rightarrow> ustr \<Rightarrow> ustr list" where
  "first_count_note [] text = []"
| "first_count_note (p # ps) text =
     (case re_search p text of
        Some gs \<Rightarrow> [[0x7D2F, 0x8BA1, 0x9650, 0x8D54] @ group1 gs @ [0x6B21]]
      | None \<Rightarrow> first_count_note ps text)"

definition case_notes :: "ustr \<Rightarrow> ustr list" where
  "case_notes text =
     (if once_only text then [[0x9650, 0x8D54, 0x31, 0x6B21]]
      else if str_in [0x591A, 0x6B21] text \<or> str_in [0x7D2F, 0x8BA1, 0x7ED9, 0x4ED8] text
      then first_count_note count_patterns text
      else [])
     @ (if str_in [0x8FD0, 0x52A8] text \<and> str_in [0x8FBE, 0x6807] text then [[0x9700, 0x8FBE, 0x5230, 0x8FD0, 0x52A8, 0x6807, 0x51C6]] else [])"

definition re_percent :: re where
  "re_percent = cats [Grp re_number, Lit [0x25]]"

definition mk_stage :: "int \<Rightarrow> ustr \<Rightarrow> ustr \<Rightarrow> ustr \<Rightarrow> stage" where
  "mk_stage n p f d =
     empty_stage\<lparr>stageNumber := Some n, period := Some p, formula := Some f,
                  naturalLanguageDescription := Some d\<rparr>"

definition with_age :: "age_condition list option \<Rightarrow> stage \<Rightarrow> stage" where
  "with_age age_conditions st =
     (case age_conditions of
        Some (a # as) \<Rightarrow> st\<lparr>ageConditions := Some (a # as)\<rparr>
      | _ \<Rightarrow> st)"

definition with_year :: "policy_year_range option \<Rightarrow> stage \<Rightarrow> stage" where
  "with_year policy_year_range st =
     (case policy_year_range of
        Some r \<Rightarrow> st\<lparr>policyYearRange := Some r\<rparr>
      | None \<Rightarrow> st)"

definition with_payment :: "ustr option \<Rightarrow> stage \<Rightarrow> stage" where
  "with_payment payment_period_status st =
     (case payment_period_status of
        Some s \<Rightarrow> st\<lparr>paymentPeriodStatus := Some s\<rparr>
      | None \<Rightarrow> st)"

definition with_note :: "ustr list \<Rightarrow> stage \<Rightarrow> stage" where
  "with_note notes st =
     (if notes \<noteq> [] then st\<lparr>stage_note := Some (py_join [0xFF1B] notes)\<rparr> else st)"

definition mk_case :: "int \<Rightarrow> ustr \<Rightarrow> ustr \<Rightarrow> ustr \<Rightarrow> stage list \<Rightarrow> pcase" where
  "mk_case seq code category name stages =
     empty_case\<lparr>xuhao := Some seq, chanpin_bianma := Some code, leixing := Some category,
                 zeren_mingcheng := Some name, payoutAmount := Some stages\<rparr>"

definition single_stage ::
  "(ustr \<Rightarrow> age_condition list option) \<Rightarrow> ustr \<Rightarrow> ustr \<Rightarrow> ustr \<Rightarrow> stage" where
  "single_stage extract_age_conditions text f desc =
     with_note (case_notes text)
       (with_payment (extract_payment_period_status text)
         (with_year (extract_policy_year_range text)
           (with_age (extract_age_conditions text)
             (mk_stage 1 [0x7B49, 0x5F85, 0x671F, 0x540E] f desc))))"

definition parse_remaining_case ::
  "(ustr \<Rightarrow> age_condition list option) \<Rightarrow> int \<Rightarrow> ustr \<Rightarrow> ustr \<Rightarrow> ustr \<Rightarrow> ustr \<Rightarrow> pcase" where
  "parse_remaining_case extract_age_conditions seq code category name text =
     (if str_in [0x4E0B, 0x8868] text \<or> str_in [0x8868, 0x683C] text then
        mk_case seq code category name
          [single_stage extract_age_conditions text [0x6309, 0x8868, 0x683C, 0x8D54, 0x4ED8] [0x6309, 0x8868, 0x683C, 0x6BD4, 0x4F8B, 0x8D54, 0x4ED8]]
      else if str_in [0x5DF2, 0x4EA4, 0x4FDD, 0x8D39] text \<or> str_in [0x5DF2, 0x4EA4, 0x7EB3] text
              \<or> str_in [0x5DF2, 0x652F, 0x4ED8, 0x7684, 0x4FDD, 0x9669, 0x8D39] text then
        (if str_in [0x7B49, 0x5F85, 0x671F, 0x5185] text \<or> str_in (asc ''180'' @ [0x65E5, 0x5185]) text
            \<or> str_in (asc ''90'' @ [0x65E5, 0x5185]) text then
           (let wait_stage = mk_stage 1 [0x7B49, 0x5F85, 0x671F, 0x5185] [0x5DF2, 0x4EA4, 0x4FDD, 0x8D39] [0x7B49, 0x5F85, 0x671F, 0x5185, 0x786E, 0x8BCA, 0xFF0C, 0x8FD4, 0x8FD8, 0x5DF2, 0x4EA4, 0x4FDD, 0x8D39];
                after_stage =
                  with_year (extract_policy_year_range text)
                    (with_age (extract_age_conditions text)
                      (mk_stage 2 [0x7B49, 0x5F85, 0x671F, 0x540E] ([0x57FA, 0x672C, 0x4FDD, 0x989D] @ asc '' * 100%'')
                         [0x7B49, 0x5F85, 0x671F, 0x540E, 0x786E, 0x8BCA, 0xFF0C, 0x6309, 0x57FA, 0x672C, 0x4FDD, 0x989D, 0x8D54, 0x4ED8]))
            in mk_case seq code category name [wait_stage, after_stage])
         else
           mk_case seq code category name
             [single_stage extract_age_conditions text [0x5DF2, 0x4EA4, 0x4FDD, 0x8D39] [0x786E, 0x8BCA, 0x540E, 0x8FD4, 0x8FD8, 0x5DF2, 0x4EA4, 0x4FDD, 0x8D39]])
      else if str_in [0x73B0, 0x91D1, 0x4EF7, 0x503C] text then
        mk_case seq code category name
          [single_stage extract_age_conditions text [0x5DF2, 0x4EA4, 0x4FDD, 0x8D39, 0x6216, 0x73B0, 0x91D1, 0x4EF7, 0x503C, 0x7684, 0x8F83, 0x5927, 0x8005]
             [0x6309, 0x5DF2, 0x4EA4, 0x4FDD, 0x8D39, 0x6216, 0x73B0, 0x91D1, 0x4EF7, 0x503C, 0x7684, 0x8F83, 0x5927, 0x8005, 0x8D54, 0x4ED8]]
      else if str_in (asc ''%'') text then
        (case re_search re_percent text of
           Some gs \<Rightarrow>
             mk_case seq code category name
               [single_stage extract_age_conditions text
                  ([0x57FA, 0x672C, 0x4FDD, 0x989D] @ asc '' * '' @ group1 gs @ asc ''%'')
                  ([0x6309, 0x57FA, 0x672C, 0x4FDD, 0x989D, 0xD7] @ group1 gs @ asc ''%'' @ [0x8D54, 0x4ED8])]
         | None \<Rightarrow>
             mk_case seq code category name
               [single_stage extract_age_conditions text ([0x57FA, 0x672C, 0x4FDD, 0x989D] @ asc '' * 100%'')
                  [0x6309, 0x57FA, 0x672C, 0x4FDD, 0x989D, 0x8D54, 0x4ED8]])
      else
        mk_case seq code category name
          [single_stage extract_age_conditions text ([0x57FA, 0x672C, 0x4FDD, 0x989D] @ asc '' * 100%'')
             [0x6309, 0x57FA, 0x672C, 0x4FDD, 0x989D, 0x8D54, 0x4ED8]])"

subsection \<open>main: merging the new cases into the corpus\<close>


fun new_cases ::
  "(ustr \<Rightarrow> age_condition list option) \<Rightarrow> int list \<Rightarrow> ustr list \<Rightarrow> py_error + pcase list" where
  "new_cases ex seqs [] = Inr []"
| "new_cases ex seqs (line # lines) =
     (case py_split (asc ''|||'') (py_strip line) of
        p0 # p1 # p2 # p3 # p4 # _ \<Rightarrow>
          if isdigit p0 then
            (case py_int p0 of
               None \<Rightarrow> Inl ValueError
             | Some seq \<Rightarrow>
                 (case new_cases ex seqs lines of
                    Inl e \<Rightarrow> Inl e
                  | Inr cs \<Rightarrow>
                      if seq \<notin> set seqs \<and> seq \<le> 2800
                      then Inr (parse_remaining_case ex seq p1 p2 p3 p4 # cs)
                      else Inr cs))
          else new_cases ex seqs lines
      | _ \<Rightarrow> new_cases ex seqs lines)"




section \<open>scripts/parse-coverages-direct.py\<close>

subsection \<open>parse_waiting_period_status\<close>

text \<open>
  The first branch looks for [U+7B49 U+5F85 U+671F U+5185] ("within the waiting period") or
  [U+89C2 U+5BDF U+671F U+5185] ("within the observation period"); the second for [U+7B49 U+5F85 U+671F U+540E],
  [U+7B49 U+5F85 U+671F U+6EE1 U+540E], [U+610F U+5916] ("accident") or [U+610F U+5916 U+4F24 U+5BB3]; the third is the default.
\<close>

definition parse_waiting_period_status :: "ustr \<Rightarrow> ustr" where
  "parse_waiting_period_status clause_text =
     (if str_in [0x7B49, 0x5F85, 0x671F, 0x5185] clause_text \<or> str_in [0x89C2, 0x5BDF, 0x671F, 0x5185] clause_text
      then asc ''during''
      else if str_in [0x7B49, 0x5F85, 0x671F, 0x540E] clause_text \<or> str_in [0x7B49, 0x5F85, 0x671F, 0x6EE1, 0x540E] clause_text
              \<or> str_in [0x610F, 0x5916] clause_text \<or> str_in [0x610F, 0x5916, 0x4F24, 0x5BB3] clause_text
      then asc ''after''
      else asc ''after'')"

subsection \<open>generate_natural_language_description\<close>

text \<open>
  The age condition and the policy-year range reach this function as JSON text written by
  \<open>parse_age_condition\<close> and \<open>parse_policy_year_range\<close> (or as the empty string). The
  model takes the decoded objects: an age object has an integer \<open>limit\<close>, an \<open>operator\<close>
  and possibly a \<open>type\<close>; a year object has \<open>start\<close> and \<open>end\<close>, each an integer or null.
  The ratio of the formula is found by U+00D7 \<open>\s*(\d+(?:\.\d+)?%?)\<close>.
  \<open>joined_description\<close> is the local \<open>desc\<close> before the length limit is applied.
\<close>

record age_json =
  aj_limit :: int
  aj_operator :: ustr
  aj_type :: "ustr option"

record year_json =
  yj_start :: "int option"
  yj_end :: "int option"

definition re_times_ratio :: re where
  "re_times_ratio = cats [Lit [0xD7], spaces0, Grp (Cat re_number (Opt (Lit [0x25])))]"

definition disease_part :: "ustr \<Rightarrow> ustr" where
  "disease_part clause_text =
     (if str_in [0x91CD, 0x5927, 0x75BE, 0x75C5] clause_text then [0x786E, 0x8BCA, 0x91CD, 0x5927, 0x75BE, 0x75C5]
      else if str_in [0x4E2D, 0x75C7, 0x75BE, 0x75C5] clause_text \<or> str_in [0x4E2D, 0x5EA6, 0x75BE, 0x75C5] clause_text then [0x786E, 0x8BCA, 0x4E2D, 0x75C7, 0x75BE, 0x75C5]
      else if str_in [0x8F7B, 0x75C7, 0x75BE, 0x75C5] clause_text \<or> str_in [0x8F7B, 0x5EA6, 0x75BE, 0x75C5] clause_text then [0x786E, 0x8BCA, 0x8F7B, 0x75C7, 0x75BE, 0x75C5]
      else if str_in [0x6076, 0x6027, 0x80BF, 0x7624] clause_text then [0x786E, 0x8BCA, 0x6076, 0x6027, 0x80BF, 0x7624]
      else if str_in [0x7279, 0x5B9A, 0x75BE, 0x75C5] clause_text then [0x786E, 0x8BCA, 0x7279, 0x5B9A, 0x75BE, 0x75C5]
      else [0x786E, 0x8BCA])"

definition age_desc_parts :: "age_json option \<Rightarrow> ustr list" where
  "age_desc_parts age_condition =
     (case age_condition of
        None \<Rightarrow> []
      | Some age_obj \<Rightarrow>
          (let limit = str_of_int (aj_limit age_obj);
               age_type = (case aj_type age_obj of None \<Rightarrow> [0x786E, 0x8BCA, 0x65F6] | Some t \<Rightarrow> t) in
           if aj_operator age_obj = asc ''<'' then [age_type @ [0x672A, 0x6EE1] @ limit @ [0x5468, 0x5C81]]
           else if aj_operator age_obj = asc ''>='' then [age_type @ [0x6EE1] @ limit @ [0x5468, 0x5C81]]
           else []))"

definition year_desc_parts :: "year_json option \<Rightarrow> ustr list" where
  "year_desc_parts policy_year_range =
     (case policy_year_range of
        None \<Rightarrow> []
      | Some year_obj \<Rightarrow>
          (let from_start =
                 (case yj_start year_obj of
                    None \<Rightarrow> []
                  | Some s \<Rightarrow>
                      if s \<noteq> 0 then [[0x4E14, 0x7B2C] @ str_of_int s @ [0x4E2A, 0x4FDD, 0x5355, 0x5468, 0x5E74, 0x65E5, 0x540E]] else [])
           in case yj_end year_obj of
                None \<Rightarrow> from_start
              | Some e \<Rightarrow>
                  if e \<noteq> 0 then [[0x4E14, 0x7B2C] @ str_of_int (e + 1) @ [0x4E2A, 0x4FDD, 0x5355, 0x5468, 0x5E74, 0x65E5, 0x524D]]
                  else from_start))"

definition formula_desc_parts :: "ustr \<Rightarrow> ustr list" where
  "formula_desc_parts f =
     (if f \<noteq> [] then
        (if str_in [0x5DF2, 0x4EA4, 0x4FDD, 0x8D39] f then [[0xFF0C, 0x6309, 0x5DF2, 0x4EA4, 0x4FDD, 0x8D39, 0x7ED9, 0x4ED8]]
         else if str_in [0xD7] f then
           (case re_search re_times_ratio f of
              Some gs \<Rightarrow> [[0xFF0C, 0x6309, 0x6295, 0x4FDD, 0x91D1, 0x989D, 0xD7] @ group1 gs @ [0x7ED9, 0x4ED8]]
            | None \<Rightarrow> [[0xFF0C, 0x6309, 0x6295, 0x4FDD, 0x91D1, 0x989D, 0x7ED9, 0x4ED8]])
         else [[0xFF0C, 0x6309, 0x6295, 0x4FDD, 0x91D1, 0x989D, 0x7ED9, 0x4ED8]])
      else [])"

definition joined_description ::
  "ustr \<Rightarrow> ustr \<Rightarrow> ustr \<Rightarrow> age_json option \<Rightarrow> year_json option \<Rightarrow> ustr" where
  "joined_description clause_text waiting_period f age_condition policy_year_range =
     (let desc_parts =
            (if waiting_period = asc ''after'' then [[0x7B49, 0x5F85, 0x671F, 0x540E]]
             else if waiting_period = asc ''during'' then [[0x7B49, 0x5F85, 0x671F, 0x5185]]
             else [])
            @ [disease_part clause_text]
            @ age_desc_parts age_condition
            @ year_desc_parts policy_year_range
            @ formula_desc_parts f
      in concat desc_parts)"

definition generate_natural_language_description ::
  "ustr \<Rightarrow> ustr \<Rightarrow> ustr \<Rightarrow> age_json option \<Rightarrow> year_json option \<Rightarrow> ustr" where
  "generate_natural_language_description clause_text waiting_period f age_condition policy_year_range =
     (let desc = joined_description clause_text waiting_period f age_condition policy_year_range
      in if length desc > 50 then take 47 desc @ asc ''...'' else desc)"

subsection \<open>parse_md_file\<close>

text \<open>
  The content of the file is cut into lines at the line feed. A line is a record when it
  has the separator \<open>|||\<close>, at least five fields and a first field that \<open>int\<close> accepts
  and that is positive; the \<open>ValueError\<close> of \<open>int\<close> is caught and the line skipped.
\<close>

record raw_record =
  serialNumber :: int
  policyDocumentId :: ustr
  coverageType :: ustr
  coverageName :: ustr
  clauseText :: ustr

definition parse_md_line :: "ustr \<Rightarrow> raw_record list" where
  "parse_md_line line0 =
     (let line = py_strip line0 in
      if line = asc ''```'' \<or> prefix (asc ''#'') line then []
      else if line = [] then []
      else if \<not> str_in (asc ''|||'') line then []
      else
        (case map py_strip (py_split (asc ''|||'') line) of
           serial_number # policy_document_id # coverage_type # coverage_name # clause_text # _ \<Rightarrow>
             (case py_int serial_number of
                None \<Rightarrow> []
              | Some num \<Rightarrow>
                  if num \<le> 0 then []
                  else [\<lparr>serialNumber = num, policyDocumentId = policy_document_id,
                         coverageType = coverage_type, coverageName = coverage_name,
                         clauseText = clause_text\<rparr>])
         | _ \<Rightarrow> []))"

definition parse_md_file :: "ustr \<Rightarrow> raw_record list" where
  "parse_md_file content = concat (map parse_md_line (py_split [0x0A] content))"

section \<open>tools/1_generate_batch.py\<close>

subsection \<open>load_raw_data\<close>

text \<open>
  The lines of the raw-clause file are read one by one. Empty lines, lines that start
  with \<open>#\<close> and lines that start with [U+5E8F U+53F7 U+8303 U+56F4] ("range of sequence numbers") are
  skipped. A line with at least five fields is a record: \<open>int\<close> is applied to its first
  field with no guard and no handler, so its \<open>ValueError\<close> leaves the function. The
  result is a dictionary keyed by the sequence number: a later line with the same number
  replaces the earlier one.
\<close>

record raw_row =
  row_xuhao :: int
  row_baodan_id :: ustr
  row_leixing :: ustr
  row_mingcheng :: ustr
  row_yuanwen :: ustr

fun dict_set :: "'k \<Rightarrow> 'v \<Rightarrow> ('k \<times> 'v) list \<Rightarrow> ('k \<times> 'v) list" where
  "dict_set k v [] = [(k, v)]"
| "dict_set k v ((k', v') # kvs) =
     (if k = k' then (k, v) # kvs else (k', v') # dict_set k v kvs)"

fun load_raw_lines ::
  "int \<Rightarrow> int \<Rightarrow> ustr list \<Rightarrow> (int \<times> raw_row) list \<Rightarrow> py_error + (int \<times> raw_row) list" where
  "load_raw_lines start end [] raw_data = Inr raw_data"
| "load_raw_lines start end (l # ls) raw_data =
     (let line = py_strip l in
      if line = [] \<or> prefix (asc ''#'') line \<or> prefix [0x5E8F, 0x53F7, 0x8303, 0x56F4] line
      then load_raw_lines start end ls raw_data
      else
        (case py_split (asc ''|||'') line of
           p0 # p1 # p2 # p3 # p4 # _ \<Rightarrow>
             (case py_int p0 of
                None \<Rightarrow> Inl ValueError
              | Some n \<Rightarrow>
                  if start \<le> n \<and> n \<le> end
                  then load_raw_lines start end ls
                         (dict_set n \<lparr>row_xuhao = n, row_baodan_id = p1, row_leixing = p2,
                                      row_mingcheng = p3, row_yuanwen = p4\<rparr> raw_data)
                  else load_raw_lines start end ls raw_data)
         | _ \<Rightarrow> load_raw_lines start end ls raw_data))"

definition load_raw_data :: "ustr list \<Rightarrow> int \<Rightarrow> int \<Rightarrow> py_error + (int \<times> raw_row) list" where
  "load_raw_data lines start end = load_raw_lines start end lines []"


section \<open>Example inputs\<close>

text \<open>
  Concrete clauses, cases and findings at which the theorems below are instantiated and
  the functions evaluated.
\<close>

text \<open>
  A clause about a critical illness ([U+91CD U+5927 U+75BE U+75C5]) after the waiting period, with an age
  object (under 18 at diagnosis), a year object (years 1 to 5) and a formula with a long
  ratio: the synthesized description has 51 characters.
\<close>

definition long_example_clause :: ustr where
  "long_example_clause = [0x7B49, 0x5F85, 0x671F, 0x540E, 0x88AB, 0x4FDD, 0x9669, 0x4EBA, 0x521D, 0x6B21, 0x786E, 0x8BCA, 0x91CD, 0x5927, 0x75BE, 0x75C5]"

definition long_example_formula :: ustr where
  "long_example_formula = [0x6295, 0x4FDD, 0x91D1, 0x989D, 0xD7] @ asc '' 12345.678901%''"

definition long_example_age :: age_json where
  "long_example_age = \<lparr>aj_limit = 18, aj_operator = asc ''<'', aj_type = Some [0x786E, 0x8BCA, 0x65F6]\<rparr>"

definition long_example_year :: year_json where
  "long_example_year = \<lparr>yj_start = Some 1, yj_end = Some 5\<rparr>"

text \<open>
  Lines of a raw-clause file: a row of column titles ([U+5E8F U+53F7], [U+4FDD U+5355]ID[U+53F7],
  [U+8D23 U+4EFB U+7C7B U+578B], [U+8D23 U+4EFB U+540D U+79F0], [U+8D23 U+4EFB U+539F U+6587]) with five fields, the first of which is
  not a number, and a well-formed record with the sequence number 7.
\<close>

definition title_row :: ustr where
  "title_row = [0x5E8F, 0x53F7] @ asc ''|||'' @ [0x4FDD, 0x5355] @ asc ''ID'' @ [0x53F7] @ asc ''|||''
               @ [0x8D23, 0x4EFB, 0x7C7B, 0x578B] @ asc ''|||'' @ [0x8D23, 0x4EFB, 0x540D, 0x79F0] @ asc ''|||'' @ [0x8D23, 0x4EFB, 0x539F, 0x6587]"

definition good_row :: ustr where
  "good_row = asc ''7|||P001|||'' @ [0x75BE, 0x75C5, 0x8D23, 0x4EFB] @ asc ''|||'' @ [0x91CD, 0x5927, 0x75BE, 0x75C5, 0x4FDD, 0x9669, 0x91D1]
              @ asc ''|||'' @ [0x6309, 0x57FA, 0x672C, 0x4FDD, 0x989D, 0x7ED9, 0x4ED8]"

definition good_raw_row :: raw_row where
  "good_raw_row = \<lparr>row_xuhao = 7, row_baodan_id = asc ''P001'', row_leixing = [0x75BE, 0x75C5, 0x8D23, 0x4EFB],
                    row_mingcheng = [0x91CD, 0x5927, 0x75BE, 0x75C5, 0x4FDD, 0x9669, 0x91D1], row_yuanwen = [0x6309, 0x57FA, 0x672C, 0x4FDD, 0x989D, 0x7ED9, 0x4ED8]\<rparr>"

definition good_raw_record :: raw_record where
  "good_raw_record = \<lparr>serialNumber = 7, policyDocumentId = asc ''P001'',
                       coverageType = [0x75BE, 0x75C5, 0x8D23, 0x4EFB], coverageName = [0x91CD, 0x5927, 0x75BE, 0x75C5, 0x4FDD, 0x9669, 0x91D1],
                       clauseText = [0x6309, 0x57FA, 0x672C, 0x4FDD, 0x989D, 0x7ED9, 0x4ED8]\<rparr>"

text \<open>
  A case with one stage that pays 50 percent of the basic sum insured every year, three
  times; the description of the stage ("after the waiting period, diagnosed, pays
  according to the basic sum insured") mentions neither the three payments nor the ratio.
  \<open>yearly_once\<close> and \<open>yearly_twice\<close> are the descriptions after one and after two repairs.
\<close>

definition yearly_stage :: stage where
  "yearly_stage =
     empty_stage\<lparr>stageNumber := Some 1, period := Some [0x7B49, 0x5F85, 0x671F, 0x540E],
       waitingPeriodStatus := Some (asc ''after''),
       formula := Some ([0x57FA, 0x672C, 0x4FDD, 0x989D] @ asc '' * 50%''),
       naturalLanguageDescription := Some [0x7B49, 0x5F85, 0x671F, 0x540E, 0x786E, 0x8BCA, 0xFF0C, 0x6309, 0x57FA, 0x672C, 0x4FDD, 0x989D, 0x8D54, 0x4ED8],
       continuousPayment := Some \<lparr>cp_type = Some (asc ''fixed_count''),
                                  cp_totalCount = Some 3, cp_frequency = Some [0x5E74]\<rparr>\<rparr>"

definition yearly_case :: pcase where
  "yearly_case =
     empty_case\<lparr>xuhao := Some 1, zeren_mingcheng := Some [0x91CD, 0x5927, 0x75BE, 0x75C5, 0x4FDD, 0x9669, 0x91D1],
       zeren_yuanwen := Some ([0x7B49, 0x5F85, 0x671F, 0x540E, 0x786E, 0x8BCA, 0x91CD, 0x5927, 0x75BE, 0x75C5, 0xFF0C, 0x6BCF, 0x5E74, 0x7ED9, 0x4ED8, 0x57FA, 0x672C, 0x4FDD, 0x989D, 0x7684] @ asc ''50%''
                              @ [0xFF0C, 0x5171, 0x7ED9, 0x4ED8] @ asc ''3'' @ [0x6B21]),
       payoutAmount := Some [yearly_stage]\<rparr>"

definition yearly_finding :: issue where
  "yearly_finding = mk_issue ''P2'' ''incomplete_description'' yearly_case (Some 1)"

definition yearly_once :: ustr where
  "yearly_once = [0x7B49, 0x5F85, 0x671F, 0x540E, 0x786E, 0x8BCA, 0xFF0C, 0x6BCF, 0x5E74, 0x6309, 0x57FA, 0x672C, 0x4FDD, 0x989D, 0x8D54, 0x4ED8, 0xFF08, 0x5206] @ asc ''3'' @ [0x6B21, 0xFF09]"

definition yearly_twice :: ustr where
  "yearly_twice = [0x7B49, 0x5F85, 0x671F, 0x540E, 0x786E, 0x8BCA, 0xFF0C, 0x6BCF, 0x5E74, 0x6309, 0x57FA, 0x672C, 0x4FDD, 0x989D, 0x8D54, 0x4ED8, 0xFF08, 0x5206] @ asc ''3'' @ [0x6B21, 0xFF09, 0xFF08, 0x5206]
                  @ asc ''3'' @ [0x6B21, 0xFF09]"

definition with_description :: "ustr \<Rightarrow> pcase" where
  "with_description d =
     yearly_case\<lparr>payoutAmount := Some [yearly_stage\<lparr>naturalLanguageDescription := Some d\<rparr>]\<rparr>"



definition under_18 :: age_condition where
  "under_18 = \<lparr>ac_ageType = Some [0x786E, 0x8BCA, 0x65F6], ac_operator = Some (asc ''<''),
                ac_age = Some 18, ac_maxAge = None, ac_limit = None\<rparr>"

definition fixed_extractor :: "ustr \<Rightarrow> age_condition list option" where
  "fixed_extractor text = Some [under_18]"

text \<open>
  A clause with a sports qualifier ("the insured meets the sports standard"): the case
  that \<open>parse_remaining_case\<close> builds for it has one stage, whose note is
  [U+9700 U+8FBE U+5230 U+8FD0 U+52A8 U+6807 U+51C6] ("must reach the sports standard"). And a case of two stages
  whose notes are "[U+9650 U+8D54]1[U+6B21]; [U+9700 U+8FBE U+5230 U+8FD0 U+52A8 U+6807 U+51C6]" and "[U+9650 U+8D54]1[U+6B21]"
  ("pays at most once").
\<close>

definition sports_clause :: ustr where
  "sports_clause = [0x88AB, 0x4FDD, 0x9669, 0x4EBA, 0x8FD0, 0x52A8, 0x8FBE, 0x6807, 0x7684, 0xFF0C, 0x989D, 0x5916, 0x7ED9, 0x4ED8, 0x57FA, 0x672C, 0x4FDD, 0x989D, 0x7684] @ asc ''10%''"

definition sports_case :: pcase where
  "sports_case = parse_remaining_case fixed_extractor 2701 (asc ''P001'') [0x75BE, 0x75C5, 0x8D23, 0x4EFB]
                   [0x91CD, 0x5927, 0x75BE, 0x75C5, 0x4FDD, 0x9669, 0x91D1] sports_clause"

definition two_note_case :: pcase where
  "two_note_case =
     empty_case\<lparr>xuhao := Some 12, case_note := Some [0x9700, 0x95F4, 0x9694],
       payoutAmount := Some
         [empty_stage\<lparr>stageNumber := Some 1,
            stage_note := Some ([0x9650, 0x8D54] @ asc ''1'' @ [0x6B21, 0xFF1B, 0x9700, 0x8FBE, 0x5230, 0x8FD0, 0x52A8, 0x6807, 0x51C6])\<rparr>,
          empty_stage\<lparr>stageNumber := Some 2,
            stage_note := Some (asc '' '' @ [0x9650, 0x8D54] @ asc ''1'' @ [0x6B21])\<rparr>]\<rparr>"






text \<open>
  A stage whose formula has a multiplication sign U+00D7, two blanks in a row and a
  full-width comma at the end, and the formula after normalization.
\<close>

definition messy_stage :: stage where
  "messy_stage = empty_stage\<lparr>stageNumber := Some 1,
                   formula := Some ([0x57FA, 0x672C, 0x4FDD, 0x989D] @ asc '' '' @ [0xD7] @ asc ''  50%'' @ [0xFF0C])\<rparr>"

definition tidy_formula :: ustr where
  "tidy_formula = [0x57FA, 0x672C, 0x4FDD, 0x989D] @ asc '' * 50%''"


section \<open>Facts about the string operations\<close>

lemma str_in_iff: "str_in sub s \<longleftrightarrow> (\<exists>ps ss. s = ps @ sub @ ss)"
proof (induction s)
  case Nil
  then show ?case by auto
next
  case (Cons c cs)
  show ?case
  proof
    assume "str_in sub (c # cs)"
    then consider "prefix sub (c # cs)" | "str_in sub cs" by auto
    then show "\<exists>ps ss. c # cs = ps @ sub @ ss"
    proof cases
      case 1
      then obtain ss where "c # cs = sub @ ss" by (auto simp: prefix_def)
      then have "c # cs = [] @ sub @ ss" by simp
      then show ?thesis by blast
    next
      case 2
      with Cons.IH obtain ps ss where "cs = ps @ sub @ ss" by blast
      then have "c # cs = (c # ps) @ sub @ ss" by simp
      then show ?thesis by blast
    qed
  next
    assume "\<exists>ps ss. c # cs = ps @ sub @ ss"
    then obtain ps ss where eq: "c # cs = ps @ sub @ ss" by blast
    show "str_in sub (c # cs)"
    proof (cases ps)
      case Nil
      with eq have "prefix sub (c # cs)" by (simp add: prefix_def)
      then show ?thesis by simp
    next
      case (Cons p ps')
      with eq have "cs = ps' @ sub @ ss" by simp
      with Cons.IH have "str_in sub cs" by blast
      then show ?thesis by simp
    qed
  qed
qed

section \<open>Facts about int and about the matcher\<close>

text \<open>
  A decimal digit is neither white space nor a sign nor an underscore, so \<open>int\<close> accepts
  every non-empty string of decimal digits. The matcher is characterised by what a match
  consumes: \<open>(gs, r)\<close> is among the results of \<open>ms a s\<close> exactly when \<open>a\<close> matches a
  prefix of \<open>s\<close> that leaves \<open>r\<close>, capturing \<open>gs\<close>.
\<close>

lemma isspace_ch_cases:
  "isspace_ch c \<Longrightarrow> c \<in> set [9, 10, 11, 12, 13, 28, 29, 30, 31, 32, 133, 160, 5760,
       8192, 8193, 8194, 8195, 8196, 8197, 8198, 8199, 8200, 8201, 8202, 8232, 8233, 8239, 8287, 12288]"
  unfolding isspace_ch_def in_ranges_def space_ranges_def by simp arith

lemma not_decimal_special:
  "list_all (\<lambda>c. \<not> isdecimal_ch c) [9, 10, 11, 12, 13, 28, 29, 30, 31, 32, 133, 160, 5760,
       8192, 8193, 8194, 8195, 8196, 8197, 8198, 8199, 8200, 8201, 8202, 8232, 8233, 8239, 8287, 12288,
       0x2B, 0x2D, 0x5F]"
  by code_simp

lemma decimal_not_space: "isdecimal_ch c \<Longrightarrow> \<not> isspace_ch c"
  using isspace_ch_cases [of c] not_decimal_special by (auto simp: list_all_iff)

lemma decimal_not_sign: "isdecimal_ch c \<Longrightarrow> c \<noteq> 0x2B \<and> c \<noteq> 0x2D \<and> c \<noteq> 0x5F"
  using not_decimal_special by (auto simp: list_all_iff)

lemma int_body_ok_decimal: "s \<noteq> [] \<Longrightarrow> list_all isdecimal_ch s \<Longrightarrow> int_body_ok s"
proof (induction s rule: int_body_ok.induct)
  case 1
  then show ?case by simp
next
  case (2 c)
  then show ?case by simp
next
  case (3 c d cs)
  then show ?case using decimal_not_sign [of d] by auto
qed

lemma int_strip_decimal:
  "list_all isdecimal_ch s \<Longrightarrow> rev (dropWhile isspace_int (rev (dropWhile isspace_int s))) = s"
proof (cases s)
  case Nil
  then show ?thesis by simp
next
  case (Cons c cs)
  assume a: "list_all isdecimal_ch s"
  with Cons have h: "\<not> isspace_int (hd s)"
    using decimal_not_space by (simp add: isspace_int_def)
  from a Cons have "isdecimal_ch (last s)"
    by (metis last_in_set list.distinct(1) list_all_iff)
  then have l: "\<not> isspace_int (last s)"
    using decimal_not_space by (simp add: isspace_int_def)
  from h Cons have d1: "dropWhile isspace_int s = s" by simp
  from l Cons have "dropWhile isspace_int (rev s) = rev s"
    by (metis dropWhile.simps(2) hd_rev list.collapse rev_is_Nil_conv list.distinct(1))
  with d1 show ?thesis by simp
qed

lemma py_int_decimal:
  assumes "s \<noteq> []" and "list_all isdecimal_ch s"
  shows "py_int s = Some (int (digits_value s))"
proof -
  from assms have "isdecimal_ch (hd s)" by (cases s) auto
  then have "hd s \<noteq> 0x2B \<and> hd s \<noteq> 0x2D" using decimal_not_sign by blast
  then show ?thesis
    using assms by (simp add: py_int_def int_strip_decimal int_body_ok_decimal Let_def)
qed


lemma re_search_Some:
  "re_search r s = Some gs \<Longrightarrow> \<exists>pre rest more. ms r (drop (length pre) s) = (gs, rest) # more \<and> prefix pre s"
proof (induction s)
  case Nil
  then show ?case by (auto split: list.splits)
next
  case (Cons x t)
  show ?case
  proof (cases "ms r (x # t)")
    case Nil
    with Cons.prems have "re_search r t = Some gs" by simp
    from Cons.IH [OF this] obtain pre rest more
      where "ms r (drop (length pre) t) = (gs, rest) # more" "prefix pre t" by blast
    then have "ms r (drop (length (x # pre)) (x # t)) = (gs, rest) # more \<and> prefix (x # pre) (x # t)"
      by simp
    then show ?thesis by blast
  next
    case (Cons p ps)
    with Cons.prems obtain rest where "ms r (x # t) = (gs, rest) # ps"
      by (cases p) auto
    then have "ms r (drop (length ([]::ustr)) (x # t)) = (gs, rest) # ps \<and> prefix [] (x # t)"
      by simp
    then show ?thesis by blast
  qed
qed

lemma re_search_found:
  "ms r (drop i s) \<noteq> [] \<Longrightarrow> i \<le> length s \<Longrightarrow> re_search r s \<noteq> None"
proof (induction s arbitrary: i)
  case Nil
  then show ?case by (auto split: list.splits)
next
  case (Cons x t)
  show ?case
  proof (cases i)
    case 0
    with Cons.prems show ?thesis by (auto split: list.splits)
  next
    case (Suc j)
    with Cons.prems have "ms r (drop j t) \<noteq> []" "j \<le> length t" by simp_all
    from Cons.IH [OF this] show ?thesis by (auto split: list.splits)
  qed
qed


lemma le_length_takeWhile:
  "k \<le> length (takeWhile P s) \<longleftrightarrow> k \<le> length s \<and> (\<forall>x \<in> set (take k s). P x)"
proof (induction s arbitrary: k)
  case Nil
  then show ?case by simp
next
  case (Cons a s)
  then show ?case by (cases k) auto
qed

lemma ms_Lit_iff: "(gs, r) \<in> set (ms (Lit l) s) \<longleftrightarrow> gs = [] \<and> s = l @ r"
  by (auto simp: prefix_def)

lemma ms_Ch_iff: "(gs, r) \<in> set (ms (Ch c) s) \<longleftrightarrow> gs = [] \<and> (\<exists>x. s = x # r \<and> cls_ok c x)"
  by (auto split: list.splits)

lemma set_ms_Rep:
  "set (ms (Rep c lo hi g) s) =
     (\<lambda>k. ([], drop k s)) ` {k. lo \<le> k \<and> k \<le> length (takeWhile (cls_ok c) s)
                                     \<and> (\<forall>h. hi = Some h \<longrightarrow> k \<le> h)}"
proof -
  define m where "m = (case hi of None \<Rightarrow> length (takeWhile (cls_ok c) s)
                       | Some h \<Rightarrow> min h (length (takeWhile (cls_ok c) s)))"
  have a: "ms (Rep c lo hi g) s
           = map (\<lambda>k. ([], drop k s)) (if g then rev [lo..<Suc m] else [lo..<Suc m])"
    by (simp add: Let_def m_def del: upt_Suc)
  have b: "set (if g then rev [lo..<Suc m] else [lo..<Suc m]) = {k. lo \<le> k \<and> k \<le> m}"
    by (cases g) auto
  have c: "{k. lo \<le> k \<and> k \<le> m}
           = {k. lo \<le> k \<and> k \<le> length (takeWhile (cls_ok c) s) \<and> (\<forall>h. hi = Some h \<longrightarrow> k \<le> h)}"
    unfolding m_def by (cases hi) auto
  show ?thesis
    unfolding a set_map b c ..
qed

lemma ms_Rep_iff:
  "(gs, r) \<in> set (ms (Rep c lo hi g) s) \<longleftrightarrow>
     gs = [] \<and> (\<exists>w. s = w @ r \<and> lo \<le> length w \<and> (\<forall>h. hi = Some h \<longrightarrow> length w \<le> h)
                    \<and> (\<forall>x \<in> set w. cls_ok c x))"
proof
  assume "(gs, r) \<in> set (ms (Rep c lo hi g) s)"
  then obtain k where k: "lo \<le> k" "k \<le> length (takeWhile (cls_ok c) s)"
      "\<forall>h. hi = Some h \<longrightarrow> k \<le> h" and r: "r = drop k s" and gs: "gs = []"
    unfolding set_ms_Rep by auto
  from k(2) have kk: "k \<le> length s" "\<forall>x \<in> set (take k s). cls_ok c x"
    by (simp_all add: le_length_takeWhile)
  have "s = take k s @ r" using r by simp
  moreover have "length (take k s) = k" using kk(1) by simp
  ultimately show "gs = [] \<and> (\<exists>w. s = w @ r \<and> lo \<le> length w \<and> (\<forall>h. hi = Some h \<longrightarrow> length w \<le> h)
                    \<and> (\<forall>x \<in> set w. cls_ok c x))"
    using gs k(1,3) kk(2) by metis
next
  assume "gs = [] \<and> (\<exists>w. s = w @ r \<and> lo \<le> length w \<and> (\<forall>h. hi = Some h \<longrightarrow> length w \<le> h)
                    \<and> (\<forall>x \<in> set w. cls_ok c x))"
  then obtain w where gs: "gs = []" and s: "s = w @ r" and lo: "lo \<le> length w"
      and hi: "\<forall>h. hi = Some h \<longrightarrow> length w \<le> h" and cl: "\<forall>x \<in> set w. cls_ok c x"
    by blast
  have "length w \<le> length (takeWhile (cls_ok c) s)"
    using s cl by (simp add: le_length_takeWhile)
  moreover have "r = drop (length w) s" using s by simp
  ultimately show "(gs, r) \<in> set (ms (Rep c lo hi g) s)"
    unfolding set_ms_Rep using gs lo hi by blast
qed

lemma ms_Cat_iff:
  "(gs, r) \<in> set (ms (Cat a b) s) \<longleftrightarrow>
     (\<exists>g1 g2 m. (g1, m) \<in> set (ms a s) \<and> (g2, r) \<in> set (ms b m) \<and> gs = g1 @ g2)"
  by (auto simp: image_iff) force+

lemma ms_Opt_iff:
  "(gs, r) \<in> set (ms (Opt a) s) \<longleftrightarrow> (gs, r) \<in> set (ms a s) \<or> (gs = [] \<and> r = s)"
  by auto

lemma ms_suffix: "(gs, r) \<in> set (ms a s) \<Longrightarrow> \<exists>w. s = w @ r"
proof (induction a arbitrary: gs r s)
  case (Lit l)
  then show ?case unfolding ms_Lit_iff by blast
next
  case (Ch c)
  then show ?case unfolding ms_Ch_iff by (metis append_Cons append_Nil)
next
  case (Rep c lo hi g)
  then show ?case unfolding ms_Rep_iff by blast
next
  case (Cat a b)
  from Cat.prems obtain g1 g2 m where "(g1, m) \<in> set (ms a s)" "(g2, r) \<in> set (ms b m)"
    unfolding ms_Cat_iff by blast
  with Cat.IH obtain w1 w2 where "s = w1 @ m" "m = w2 @ r" by blast
  then have "s = (w1 @ w2) @ r" by simp
  then show ?case by blast
next
  case (Opt a)
  then show ?case unfolding ms_Opt_iff by (metis append_Nil)
next
  case (Grp a)
  then show ?case by auto
qed

lemma ms_Grp_iff:
  "(gs, r) \<in> set (ms (Grp a) s) \<longleftrightarrow>
     (\<exists>g w. (g, r) \<in> set (ms a s) \<and> s = w @ r \<and> gs = w # g)"
proof
  assume "(gs, r) \<in> set (ms (Grp a) s)"
  then obtain g where g: "(g, r) \<in> set (ms a s)" "gs = take (length s - length r) s # g"
    by auto
  from ms_suffix [OF g(1)] obtain w where "s = w @ r" by blast
  with g show "\<exists>g w. (g, r) \<in> set (ms a s) \<and> s = w @ r \<and> gs = w # g" by auto
next
  assume "\<exists>g w. (g, r) \<in> set (ms a s) \<and> s = w @ r \<and> gs = w # g"
  then obtain g w where "(g, r) \<in> set (ms a s)" "s = w @ r" "gs = w # g" by blast
  then show "(gs, r) \<in> set (ms (Grp a) s)" by (auto simp: image_iff intro!: bexI [of _ "(g, r)"])
qed

lemmas ms_iff = ms_Lit_iff ms_Ch_iff ms_Rep_iff ms_Cat_iff ms_Opt_iff ms_Grp_iff

section \<open>parse_waiting_period_status: total, with range during / after\<close>

text \<open>
  Claim C9. \<open>parse_waiting_period_status\<close> returns a value for every clause text, and the
  value is \<open>during\<close> or \<open>after\<close>: \<open>during\<close> exactly when the text contains
  [U+7B49 U+5F85 U+671F U+5185] or [U+89C2 U+5BDF U+671F U+5185], \<open>after\<close> for every other text, whether it has
  no waiting-period phrase at all or only mentions an accident. Both values occur.
\<close>

theorem parse_waiting_period_status_range:
  "(parse_waiting_period_status t = asc ''during'')
     = (str_in [0x7B49, 0x5F85, 0x671F, 0x5185] t \<or> str_in [0x89C2, 0x5BDF, 0x671F, 0x5185] t)
   \<and> (parse_waiting_period_status t = asc ''after'')
     = (\<not> (str_in [0x7B49, 0x5F85, 0x671F, 0x5185] t \<or> str_in [0x89C2, 0x5BDF, 0x671F, 0x5185] t))
   \<and> parse_waiting_period_status t \<in> {asc ''during'', asc ''after''}
   \<and> range parse_waiting_period_status = {asc ''during'', asc ''after''}"
proof -
  have neq: "asc ''during'' \<noteq> asc ''after''"
    by (simp add: asc_def)
  have val: "parse_waiting_period_status u =
      (if str_in [0x7B49, 0x5F85, 0x671F, 0x5185] u \<or> str_in [0x89C2, 0x5BDF, 0x671F, 0x5185] u
       then asc ''during'' else asc ''after'')" for u
    by (simp add: parse_waiting_period_status_def)
  have d: "parse_waiting_period_status [0x7B49, 0x5F85, 0x671F, 0x5185] = asc ''during''"
    unfolding val by simp
  have a: "parse_waiting_period_status [] = asc ''after''"
    unfolding val by simp
  have "range parse_waiting_period_status \<subseteq> {asc ''during'', asc ''after''}"
    using val by auto
  moreover have "asc ''during'' \<in> range parse_waiting_period_status"
    using d by (metis rangeI)
  moreover have "asc ''after'' \<in> range parse_waiting_period_status"
    using a by (metis rangeI)
  ultimately have r: "range parse_waiting_period_status = {asc ''during'', asc ''after''}"
    by blast
  show ?thesis
    using neq r by (auto simp: val)
qed

theorem parse_waiting_period_status_range_witness:
  "parse_waiting_period_status ([0x88AB, 0x4FDD, 0x9669, 0x4EBA, 0x56E0, 0x610F, 0x5916, 0x4F24, 0x5BB3]) = asc ''after''
   \<and> parse_waiting_period_status ([0x7B49, 0x5F85, 0x671F, 0x5185, 0x786E, 0x8BCA]) = asc ''during''"
  using parse_waiting_period_status_range [of "[0x88AB, 0x4FDD, 0x9669, 0x4EBA, 0x56E0, 0x610F, 0x5916, 0x4F24, 0x5BB3]"]
        parse_waiting_period_status_range [of "[0x7B49, 0x5F85, 0x671F, 0x5185, 0x786E, 0x8BCA]"]
  by simp


section \<open>generate_natural_language_description: at most fifty characters\<close>

text \<open>
  Claim C8. For every clause text and every bundle of extracted features,
  \<open>generate_natural_language_description\<close> returns at most 50 characters: a longer
  synthesized description is cut to its first 47 characters followed by three dots, and
  a description of at most 50 characters is returned as it is.
\<close>

theorem generate_natural_language_description_length:
  "length (generate_natural_language_description ct wp f ac pyr) \<le> 50
   \<and> (50 < length (joined_description ct wp f ac pyr) \<longrightarrow>
        generate_natural_language_description ct wp f ac pyr
          = take 47 (joined_description ct wp f ac pyr) @ asc ''...''
        \<and> length (generate_natural_language_description ct wp f ac pyr) = 50)
   \<and> (length (joined_description ct wp f ac pyr) \<le> 50 \<longrightarrow>
        generate_natural_language_description ct wp f ac pyr = joined_description ct wp f ac pyr)"
  by (simp add: generate_natural_language_description_def Let_def asc_def)

theorem generate_natural_language_description_length_witness:
  "50 < length (joined_description long_example_clause (asc ''after'') long_example_formula
                  (Some long_example_age) (Some long_example_year))
   \<and> generate_natural_language_description long_example_clause (asc ''after'')
        long_example_formula (Some long_example_age) (Some long_example_year)
       = [0x7B49, 0x5F85, 0x671F, 0x540E, 0x786E, 0x8BCA, 0x91CD, 0x5927, 0x75BE, 0x75C5, 0x786E, 0x8BCA, 0x65F6, 0x672A, 0x6EE1, 0x31, 0x38, 0x5468, 0x5C81, 0x4E14, 0x7B2C, 0x36, 0x4E2A, 0x4FDD, 0x5355, 0x5468, 0x5E74, 0x65E5, 0x524D, 0xFF0C, 0x6309, 0x6295, 0x4FDD, 0x91D1, 0x989D, 0xD7] @ asc ''12345.67890...''"
proof -
  have j: "joined_description long_example_clause (asc ''after'') long_example_formula
             (Some long_example_age) (Some long_example_year)
           = [0x7B49, 0x5F85, 0x671F, 0x540E, 0x786E, 0x8BCA, 0x91CD, 0x5927, 0x75BE, 0x75C5, 0x786E, 0x8BCA, 0x65F6, 0x672A, 0x6EE1, 0x31, 0x38, 0x5468, 0x5C81, 0x4E14, 0x7B2C, 0x36, 0x4E2A, 0x4FDD, 0x5355, 0x5468, 0x5E74, 0x65E5, 0x524D, 0xFF0C, 0x6309, 0x6295, 0x4FDD, 0x91D1, 0x989D, 0xD7]
             @ asc ''12345.678901%'' @ [0x7ED9, 0x4ED8]"
    by code_simp
  have h: "50 < length (joined_description long_example_clause (asc ''after'') long_example_formula
                  (Some long_example_age) (Some long_example_year))"
    unfolding j by (simp add: asc_def)
  from generate_natural_language_description_length
         [of long_example_clause "asc ''after''" long_example_formula
             "Some long_example_age" "Some long_example_year"] h
  have "generate_natural_language_description long_example_clause (asc ''after'')
          long_example_formula (Some long_example_age) (Some long_example_year)
        = take 47 (joined_description long_example_clause (asc ''after'') long_example_formula
                     (Some long_example_age) (Some long_example_year)) @ asc ''...''"
    by blast
  then show ?thesis
    using h unfolding j by (simp add: asc_def)
qed


section \<open>load_raw_data: a record with a non-numeric sequence number\<close>

text \<open>
  Claim C7 says that a malformed line (fewer than five fields, or a sequence number that
  is not a number) is skipped and the batch goes on. \<open>parse_md_file\<close> does so: it catches
  the \<open>ValueError\<close> of \<open>int\<close>. \<open>load_raw_data\<close> skips a line with fewer than five fields,
  but applies \<open>int\<close> to the first field of every other line without a handler. On a file
  whose first line is the row of column titles it raises \<open>ValueError\<close>, and the
  well-formed record after it is never loaded; \<open>parse_md_file\<close> on the same two lines
  returns that record.
\<close>

theorem load_raw_data_nonnumeric_raises:
  "load_raw_data [title_row, good_row] 1 200 = Inl ValueError
   \<and> load_raw_data [good_row] 1 200 = Inr [(7, good_raw_row)]
   \<and> load_raw_data [asc ''7|||P001'', good_row] 1 200 = Inr [(7, good_raw_row)]
   \<and> parse_md_file (title_row @ [0x0A] @ good_row) = [good_raw_record]"
  by code_simp


section \<open>parse_remaining_case: the split into a waiting and a post-waiting stage\<close>





section \<open>fix_case: stage notes are filtered, merged and deleted\<close>

lemma unique_notes_distinct_set:
  "distinct (unique_notes seen xs) \<and> set (unique_notes seen xs) = set xs - set seen"
proof (induction xs arbitrary: seen)
  case Nil
  then show ?case by simp
next
  case (Cons x xs)
  show ?case
  proof (cases "x \<in> set seen")
    case True
    with Cons.IH [of seen] show ?thesis by auto
  next
    case False
    with Cons.IH [of "x # seen"] show ?thesis by auto
  qed
qed

lemma fix_case_stage_result:
  "fix_case_stage st = (collected, fixed, st') \<Longrightarrow>
     collected = (case stage_note st of None \<Rightarrow> [] | Some n \<Rightarrow> filtered_parts n)
     \<and> stage_note st' = None"
  by (auto simp: fix_case_stage_def fix_case_frequency_def Let_def
           split: option.splits if_splits)

lemma fix_case_stages_result:
  "fix_case_stages sts = (collected, fixed, sts') \<Longrightarrow>
     collected = kept_parts sts \<and> length sts' = length sts
     \<and> (\<forall>st \<in> set sts'. stage_note st = None)"
proof (induction sts arbitrary: collected fixed sts')
  case Nil
  then show ?case by (simp add: kept_parts_def)
next
  case (Cons st sts)
  obtain n1 f1 st1 where a: "fix_case_stage st = (n1, f1, st1)"
    by (cases "fix_case_stage st") auto
  obtain n2 f2 sts2 where b: "fix_case_stages sts = (n2, f2, sts2)"
    by (cases "fix_case_stages sts") auto
  from Cons.prems a b have r: "collected = n1 @ n2" "sts' = st1 # sts2"
    by simp_all
  from fix_case_stage_result [OF a]
  have h1: "n1 = (case stage_note st of None \<Rightarrow> [] | Some n \<Rightarrow> filtered_parts n)"
    and h2: "stage_note st1 = None" by simp_all
  from Cons.IH [OF b]
  have i1: "n2 = kept_parts sts" and i2: "length sts2 = length sts"
    and i3: "\<forall>s \<in> set sts2. stage_note s = None" by simp_all
  show ?case
    using r h1 h2 i1 i2 i3 by (simp add: kept_parts_def)
qed

lemma kept_parts_iff:
  "p \<in> set (kept_parts sts) \<longleftrightarrow>
     (\<exists>st \<in> set sts. \<exists>n. stage_note st = Some n \<and> py_strip n \<noteq> []
        \<and> p \<in> py_strip ` set (py_split [0xFF1B] (py_strip n)) \<and> part_kept p)"
proof -
  have one: "p \<in> set (case stage_note st of None \<Rightarrow> [] | Some n \<Rightarrow> filtered_parts n)
      \<longleftrightarrow> (\<exists>n. stage_note st = Some n \<and> py_strip n \<noteq> []
            \<and> p \<in> py_strip ` set (py_split [0xFF1B] (py_strip n)) \<and> part_kept p)" for st
    by (cases "stage_note st") (auto simp: filtered_parts_def Let_def)
  have "p \<in> set (kept_parts sts) \<longleftrightarrow>
      (\<exists>st \<in> set sts. p \<in> set (case stage_note st of None \<Rightarrow> [] | Some n \<Rightarrow> filtered_parts n))"
    by (simp add: kept_parts_def)
  with one show ?thesis
    by blast
qed

text \<open>
  Claim C3 says that the merge keeps every distinct phrase of the stage notes. The merge
  filters: a part with an exclusion marker, or without an allowed keyword, is dropped.
  The case that \<open>parse_remaining_case\<close> builds for the sports clause carries the stage
  note [U+9700 U+8FBE U+5230 U+8FD0 U+52A8 U+6807 U+51C6]; after \<open>fix_case\<close> the stage has no note and the case has
  none either.
\<close>

theorem fix_case_drops_unlisted_phrase:
  "map stage_note (get_list (payoutAmount sports_case)) = [Some [0x9700, 0x8FBE, 0x5230, 0x8FD0, 0x52A8, 0x6807, 0x51C6]]
   \<and> case_note sports_case = None
   \<and> map stage_note (get_list (payoutAmount (snd (fix_case sports_case)))) = [None]
   \<and> case_note (snd (fix_case sports_case)) = None"
  by code_simp

text \<open>
  Claim C3, amended. After \<open>fix_case\<close> no stage of the case carries a note, so that
  \<open>remove_stage_level_note\<close> finds nothing left to delete. The parts of the stage notes
  that pass the filter (no exclusion marker, at least one allowed keyword) are kept:
  when there is one, the note of the case consists of exactly the distinct kept parts,
  joined by U+FF1B; when there is none, the note of the case is left as it was. Parts
  that do not pass the filter are dropped.
\<close>

theorem fix_case_merges_kept_parts:
  assumes "payoutAmount c = Some sts"
  shows "\<exists>sts'. payoutAmount (snd (fix_case c)) = Some sts' \<and> length sts' = length sts
     \<and> (\<forall>st \<in> set sts'. stage_note st = None \<and> remove_stage_level_note st = (False, st))
     \<and> (kept_parts sts = [] \<longrightarrow> case_note (snd (fix_case c)) = case_note c)
     \<and> (kept_parts sts \<noteq> [] \<longrightarrow>
          (\<exists>u. case_note (snd (fix_case c)) = Some (py_join [0xFF1B] u)
               \<and> distinct u \<and> set u = set (kept_parts sts)))"
proof -
  obtain collected fixed sts' where s: "fix_case_stages sts = (collected, fixed, sts')"
    by (cases "fix_case_stages sts") auto
  from fix_case_stages_result [OF s]
  have n: "collected = kept_parts sts" and l: "length sts' = length sts"
    and none: "\<forall>st \<in> set sts'. stage_note st = None" by simp_all
  have p: "payoutAmount (snd (fix_case c)) = Some sts'"
    using assms s by (simp add: fix_case_def Let_def split: if_splits)
  have r: "\<forall>st \<in> set sts'. stage_note st = None \<and> remove_stage_level_note st = (False, st)"
    using none by (simp add: remove_stage_level_note_def)
  have e: "kept_parts sts = [] \<longrightarrow> case_note (snd (fix_case c)) = case_note c"
    using assms s n by (simp add: fix_case_def Let_def split: if_splits)
  have k: "kept_parts sts \<noteq> [] \<longrightarrow>
      case_note (snd (fix_case c)) = Some (py_join [0xFF1B] (unique_notes [] (kept_parts sts)))"
    using assms s n by (simp add: fix_case_def Let_def split: if_splits)
  have u: "distinct (unique_notes [] (kept_parts sts))
           \<and> set (unique_notes [] (kept_parts sts)) = set (kept_parts sts)"
    using unique_notes_distinct_set [of "[]" "kept_parts sts"] by simp
  from p l r e k u show ?thesis by blast
qed

theorem fix_case_merges_kept_parts_witness:
  "payoutAmount two_note_case
     = Some [empty_stage\<lparr>stageNumber := Some 1,
               stage_note := Some ([0x9650, 0x8D54] @ asc ''1'' @ [0x6B21, 0xFF1B, 0x9700, 0x8FBE, 0x5230, 0x8FD0, 0x52A8, 0x6807, 0x51C6])\<rparr>,
             empty_stage\<lparr>stageNumber := Some 2,
               stage_note := Some (asc '' '' @ [0x9650, 0x8D54] @ asc ''1'' @ [0x6B21])\<rparr>]
   \<and> kept_parts (get_list (payoutAmount two_note_case))
     = [[0x9650, 0x8D54] @ asc ''1'' @ [0x6B21], [0x9650, 0x8D54] @ asc ''1'' @ [0x6B21]]
   \<and> (\<exists>u. case_note (snd (fix_case two_note_case)) = Some (py_join [0xFF1B] u)
          \<and> distinct u \<and> set u = set [[0x9650, 0x8D54] @ asc ''1'' @ [0x6B21]])
   \<and> (\<exists>sts'. payoutAmount (snd (fix_case two_note_case)) = Some sts' \<and> length sts' = 2
          \<and> (\<forall>st \<in> set sts'. stage_note st = None))"
proof -
  let ?sts = "[empty_stage\<lparr>stageNumber := Some 1,
                 stage_note := Some ([0x9650, 0x8D54] @ asc ''1'' @ [0x6B21, 0xFF1B, 0x9700, 0x8FBE, 0x5230, 0x8FD0, 0x52A8, 0x6807, 0x51C6])\<rparr>,
               empty_stage\<lparr>stageNumber := Some 2,
                 stage_note := Some (asc '' '' @ [0x9650, 0x8D54] @ asc ''1'' @ [0x6B21])\<rparr>]"
  have h: "payoutAmount two_note_case = Some ?sts"
    by (simp add: two_note_case_def empty_case_def)
  have k: "kept_parts ?sts = [[0x9650, 0x8D54] @ asc ''1'' @ [0x6B21], [0x9650, 0x8D54] @ asc ''1'' @ [0x6B21]]"
    by code_simp
  from fix_case_merges_kept_parts [OF h] k
  show ?thesis
    using h by (auto simp: get_list_def)
qed


section \<open>main of generate_batch14_final.py: merging two sources\<close>




lemma new_cases_failure_independent:
  "isl (new_cases ex seqs lines) = isl (new_cases ex seqs' lines)"
proof (induction lines)
  case Nil
  then show ?case by simp
next
  case (Cons line lines)
  then show ?case
    by (cases "new_cases ex seqs lines"; cases "new_cases ex seqs' lines")
       (auto split: list.splits option.splits)
qed





section \<open>run_auto_checks: the finding missing_cumulative_limit\<close>







lemma ms_cumulative:
  "(gs, r) \<in> set (ms re_cumulative_limit s) \<longleftrightarrow>
     (\<exists>g. gs = [g] \<and> g \<noteq> [] \<and> (\<forall>c \<in> set g. c \<in> set cn_digits \<or> isdecimal_ch c)
            \<and> s = [0x7D2F, 0x8BA1, 0x7ED9, 0x4ED8, 0x4EE5] @ g @ [0x6B21, 0x4E3A, 0x9650] @ r)"
  unfolding re_cumulative_limit_def cats.simps ms_iff
  by (auto simp: Suc_le_eq)

lemma cn_digits_not_digit: "c \<in> set cn_digits \<Longrightarrow> \<not> isdigit_ch c"
proof -
  have "list_all (\<lambda>c. \<not> isdigit_ch c) cn_digits" by code_simp
  then show "c \<in> set cn_digits \<Longrightarrow> \<not> isdigit_ch c" by auto
qed

lemma convert_chinese_num_group:
  assumes "g \<noteq> []" and "\<forall>c \<in> set g. c \<in> set cn_digits \<or> isdecimal_ch c"
  shows "(\<exists>i. convert_chinese_num g = Inr (PInt i))
         \<or> (convert_chinese_num g = Inr (PStr g) \<and> \<not> isdigit g)"
proof (cases "map_of cn_num_map g")
  case (Some v)
  then show ?thesis by (simp add: convert_chinese_num_def)
next
  case None
  show ?thesis
  proof (cases "isdigit g")
    case True
    then have "\<forall>c \<in> set g. isdigit_ch c" by (simp add: isdigit_def list_all_iff)
    with assms(2) cn_digits_not_digit have "\<forall>c \<in> set g. isdecimal_ch c" by blast
    then have "list_all isdecimal_ch g" by (simp add: list_all_iff)
    from py_int_decimal [OF assms(1) this] None True show ?thesis
      by (simp add: convert_chinese_num_def)
  next
    case False
    with None show ?thesis by (simp add: convert_chinese_num_def)
  qed
qed

lemma has_cumulative_limit_match:
  assumes "re_search re_cumulative_limit t = Some gs"
  shows "\<exists>pre g post. gs = [g] \<and> g \<noteq> [] \<and> (\<forall>c \<in> set g. c \<in> set cn_digits \<or> isdecimal_ch c)
           \<and> t = pre @ [0x7D2F, 0x8BA1, 0x7ED9, 0x4ED8, 0x4EE5] @ g @ [0x6B21, 0x4E3A, 0x9650] @ post"
proof -
  from re_search_Some [OF assms] obtain pre rest more where
    m: "ms re_cumulative_limit (drop (length pre) t) = (gs, rest) # more" and p: "prefix pre t"
    by blast
  from m have "(gs, rest) \<in> set (ms re_cumulative_limit (drop (length pre) t))" by simp
  then obtain g where g: "gs = [g]" "g \<noteq> []" "\<forall>c \<in> set g. c \<in> set cn_digits \<or> isdecimal_ch c"
    and d: "drop (length pre) t = [0x7D2F, 0x8BA1, 0x7ED9, 0x4ED8, 0x4EE5] @ g @ [0x6B21, 0x4E3A, 0x9650] @ rest"
    unfolding ms_cumulative by blast
  from p have "t = pre @ drop (length pre) t" by (auto simp: prefix_def)
  with d have "t = pre @ [0x7D2F, 0x8BA1, 0x7ED9, 0x4ED8, 0x4EE5] @ g @ [0x6B21, 0x4E3A, 0x9650] @ rest" by simp
  with g show ?thesis by blast
qed

lemma has_cumulative_limit_total: "\<exists>v. has_cumulative_limit t = Inr v"
proof (cases "re_search re_cumulative_limit t")
  case None
  then show ?thesis by (simp add: has_cumulative_limit_def)
next
  case (Some gs)
  from has_cumulative_limit_match [OF Some] obtain g where
    g: "gs = [g]" "g \<noteq> []" "\<forall>c \<in> set g. c \<in> set cn_digits \<or> isdecimal_ch c" by blast
  from convert_chinese_num_group [OF g(2) g(3)] Some g(1) show ?thesis
    by (auto simp: has_cumulative_limit_def group1_def)
qed






section \<open>The numeral normalizers\<close>












section \<open>fix_formula_format: normalizing and idempotent\<close>

lemma py_replace_remove: "py_replace [c] [] s = filter (\<lambda>x. x \<noteq> c) s"
  by (induction s) auto

lemma py_replace_char: "py_replace [c] [d] s = map (\<lambda>x. if x = c then d else x) s"
  by (induction s) auto

lemma split_ws_tokens:
  "t \<in> set (py_split_ws s) \<Longrightarrow> t \<noteq> [] \<and> (\<forall>x \<in> set t. \<not> isspace_ch x) \<and> set t \<subseteq> set s"
proof (induction s rule: py_split_ws.induct)
  case 1
  then show ?case by simp
next
  case (2 c cs)
  show ?case
  proof (cases "isspace_ch c")
    case True
    with 2 show ?thesis by auto
  next
    case False
    with "2.prems" consider "t = c # takeWhile (\<lambda>x. \<not> isspace_ch x) cs"
      | "t \<in> set (py_split_ws (dropWhile (\<lambda>x. \<not> isspace_ch x) cs))"
      by auto
    then show ?thesis
    proof cases
      case 1
      then show ?thesis using False by (auto dest: set_takeWhileD)
    next
      case 2
      from "2.IH"(2) [OF False 2] show ?thesis by (auto dest: set_dropWhileD)
    qed
  qed
qed

lemma split_ws_append:
  assumes "p \<noteq> []" and "\<forall>x \<in> set p. \<not> isspace_ch x" and "r = [] \<or> isspace_ch (hd r)"
  shows "py_split_ws (p @ r) = p # py_split_ws r"
proof -
  from assms(1) obtain c p' where p: "p = c # p'" by (cases p) auto
  have tw: "takeWhile (\<lambda>x. \<not> isspace_ch x) (p' @ r) = p'"
    using assms(2,3) p by (cases r) (auto simp: takeWhile_append2)
  have dw: "dropWhile (\<lambda>x. \<not> isspace_ch x) (p' @ r) = r"
    using assms(2,3) p by (cases r) (auto simp: dropWhile_append2)
  from p assms(2) have "\<not> isspace_ch c" by simp
  then show ?thesis using p tw dw by simp
qed

lemma isspace_blank: "isspace_ch 0x20"
  by (simp add: isspace_ch_def in_ranges_def space_ranges_def)

lemma split_ws_join:
  "\<forall>t \<in> set ts. t \<noteq> [] \<and> (\<forall>x \<in> set t. \<not> isspace_ch x) \<Longrightarrow>
     py_split_ws (py_join [0x20] ts) = ts"
proof (induction "[0x20::nat]" ts rule: py_join.induct)
  case 1
  then show ?case by simp
next
  case (2 p)
  then show ?case using split_ws_append [of p "[]"] by simp
next
  case (3 p q ps)
  from "3.prems" have ih: "py_split_ws (py_join [0x20] (q # ps)) = q # ps"
    using "3.hyps" by simp
  from "3.prems" have "py_split_ws (p @ 0x20 # py_join [0x20] (q # ps))
      = p # py_split_ws (0x20 # py_join [0x20] (q # ps))"
    using split_ws_append [of p "0x20 # py_join [0x20] (q # ps)"] isspace_blank by simp
  with ih show ?case using isspace_blank by simp
qed

lemma set_py_join: "set (py_join sep ts) \<subseteq> set sep \<union> \<Union> (set ` set ts)"
  by (induction sep ts rule: py_join.induct) auto

lemma normalize_formula_collapse:
  "\<exists>f2. normalize_formula f = py_join [0x20] (py_split_ws f2) \<and> (\<forall>c \<in> set f2. c \<notin> set bad_chars)"
proof -
  let ?f1 = "filter (\<lambda>x. x \<noteq> 0xFF1B) (filter (\<lambda>x. x \<noteq> 0x3002)
               (filter (\<lambda>x. x \<noteq> 0xFF0C) (filter (\<lambda>x. x \<noteq> 0x3001) f)))"
  let ?f2 = "map (\<lambda>x. if x = 0x58 then 0x2A else x) (map (\<lambda>x. if x = 0x78 then 0x2A else x)
               (map (\<lambda>x. if x = 0xD7 then 0x2A else x) ?f1))"
  have "normalize_formula f = py_join [0x20] (py_split_ws ?f2)"
    by (simp add: normalize_formula_def invalid_chars_def asc_def py_replace_remove py_replace_char)
  moreover have "\<forall>c \<in> set ?f2. c \<notin> set bad_chars"
    by (auto simp: bad_chars_def)
  ultimately show ?thesis by blast
qed

lemma normalize_formula_fixed:
  assumes "\<forall>c \<in> set g. c \<notin> set bad_chars" and "py_join [0x20] (py_split_ws g) = g"
  shows "normalize_formula g = g"
proof -
  have f: "py_replace [c] [] g = g" if "c \<in> set bad_chars" for c
    unfolding py_replace_remove using assms(1) that by (auto simp: filter_id_conv)
  have m: "py_replace [c] [d] g = g" if "c \<in> set bad_chars" for c d
    unfolding py_replace_char using assms(1) that by (intro map_idI) auto
  have "normalize_formula g = py_join [0x20] (py_split_ws g)"
    by (simp add: normalize_formula_def invalid_chars_def asc_def f m bad_chars_def)
  with assms(2) show ?thesis by simp
qed

lemma normalize_formula_props:
  "(\<forall>c \<in> set (normalize_formula f). c \<notin> set bad_chars)
   \<and> (\<forall>c \<in> set (normalize_formula f). isspace_ch c \<longrightarrow> c = 0x20)
   \<and> py_join [0x20] (py_split_ws (normalize_formula f)) = normalize_formula f
   \<and> normalize_formula (normalize_formula f) = normalize_formula f"
proof -
  from normalize_formula_collapse obtain f2 where
    n: "normalize_formula f = py_join [0x20] (py_split_ws f2)" and
    b: "\<forall>c \<in> set f2. c \<notin> set bad_chars" by blast
  have tok: "\<forall>t \<in> set (py_split_ws f2). t \<noteq> [] \<and> (\<forall>x \<in> set t. \<not> isspace_ch x) \<and> set t \<subseteq> set f2"
    using split_ws_tokens by blast
  have chars: "\<forall>c \<in> set (normalize_formula f). c = 0x20 \<or> (c \<in> set f2 \<and> \<not> isspace_ch c)"
  proof
    fix c assume "c \<in> set (normalize_formula f)"
    with n set_py_join [of "[0x20]" "py_split_ws f2"]
    have "c \<in> set [0x20] \<union> \<Union> (set ` set (py_split_ws f2))" by auto
    with tok show "c = 0x20 \<or> (c \<in> set f2 \<and> \<not> isspace_ch c)" by auto
  qed
  have blank: "(0x20::nat) \<notin> set bad_chars" by (simp add: bad_chars_def)
  have p1: "\<forall>c \<in> set (normalize_formula f). c \<notin> set bad_chars"
    using chars b blank by auto
  have p2: "\<forall>c \<in> set (normalize_formula f). isspace_ch c \<longrightarrow> c = 0x20"
    using chars by blast
  have "py_split_ws (py_join [0x20] (py_split_ws f2)) = py_split_ws f2"
    using tok by (intro split_ws_join) blast
  then have p3: "py_join [0x20] (py_split_ws (normalize_formula f)) = normalize_formula f"
    using n by simp
  from normalize_formula_fixed [OF p1 p3] p1 p2 p3 show ?thesis by blast
qed

lemma fix_formula_format_result:
  "fix_formula_format st = (r, s1) \<Longrightarrow>
     get_str (formula s1) = (if get_str (formula st) = [] then [] else normalize_formula (get_str (formula st)))"
  by (auto simp: fix_formula_format_def Let_def get_str_def split: if_splits option.splits)

text \<open>
  Claim C10. For every stage, after one application of \<open>fix_formula_format\<close> the formula
  contains none of the punctuation marks U+3001, U+FF0C, U+3002, U+FF1B and none of the
  multiplication signs U+00D7, x, X (they have become asterisks); its white space is
  collapsed: every white-space character left is a single blank between two words, so
  that collapsing again gives the same string. A second application returns \<open>False\<close>
  and leaves the stage unchanged.
\<close>

theorem fix_formula_format_idempotent:
  "fix_formula_format (snd (fix_formula_format st)) = (False, snd (fix_formula_format st))
   \<and> get_str (formula (snd (fix_formula_format st)))
       = (if get_str (formula st) = [] then [] else normalize_formula (get_str (formula st)))
   \<and> (\<forall>c \<in> set (get_str (formula (snd (fix_formula_format st)))). c \<notin> set bad_chars)
   \<and> (\<forall>c \<in> set (get_str (formula (snd (fix_formula_format st)))). isspace_ch c \<longrightarrow> c = 0x20)
   \<and> py_join [0x20] (py_split_ws (get_str (formula (snd (fix_formula_format st)))))
       = get_str (formula (snd (fix_formula_format st)))"
proof -
  obtain r1 s1 where a: "fix_formula_format st = (r1, s1)" by (cases "fix_formula_format st") auto
  obtain r2 s2 where b: "fix_formula_format s1 = (r2, s2)" by (cases "fix_formula_format s1") auto
  let ?f = "get_str (formula st)" and ?g = "get_str (formula s1)"
  from fix_formula_format_result [OF a]
  have g: "?g = (if ?f = [] then [] else normalize_formula ?f)" .
  have fx: "?g = [] \<or> normalize_formula ?g = ?g"
    using g normalize_formula_props [of ?f] by auto
  from b fx have r: "r2 = False \<and> s2 = s1"
    by (auto simp: fix_formula_format_def Let_def split: if_splits)
  have p: "(\<forall>c \<in> set ?g. c \<notin> set bad_chars) \<and> (\<forall>c \<in> set ?g. isspace_ch c \<longrightarrow> c = 0x20)
           \<and> py_join [0x20] (py_split_ws ?g) = ?g"
    using g normalize_formula_props [of ?f] by (cases "?f = []") simp_all
  from a b r g p show ?thesis by simp
qed

theorem fix_formula_format_idempotent_witness:
  "fix_formula_format messy_stage = (True, messy_stage\<lparr>formula := Some tidy_formula\<rparr>)
   \<and> fix_formula_format (messy_stage\<lparr>formula := Some tidy_formula\<rparr>)
       = (False, messy_stage\<lparr>formula := Some tidy_formula\<rparr>)
   \<and> 0xD7 \<in> set (get_str (formula messy_stage)) \<and> 0xD7 \<notin> set tidy_formula
   \<and> 0x20 \<in> set tidy_formula \<and> isspace_ch 0x20"
proof -
  have e: "fix_formula_format messy_stage = (True, messy_stage\<lparr>formula := Some tidy_formula\<rparr>)"
    by code_simp
  have m: "0xD7 \<in> set (get_str (formula messy_stage)) \<and> 0xD7 \<in> set bad_chars
           \<and> 0x20 \<in> set tidy_formula"
    by code_simp
  from fix_formula_format_idempotent [of messy_stage] e
  have i: "fix_formula_format (messy_stage\<lparr>formula := Some tidy_formula\<rparr>)
             = (False, messy_stage\<lparr>formula := Some tidy_formula\<rparr>)"
    and n: "\<forall>c \<in> set (get_str (formula (messy_stage\<lparr>formula := Some tidy_formula\<rparr>))).
              c \<notin> set bad_chars"
    by simp_all
  from n m have "0xD7 \<notin> set tidy_formula"
    by (auto simp: get_str_def)
  with e i m isspace_blank show ?thesis by simp
qed


section \<open>apply_fixes: a second run changes the case again\<close>

text \<open>
  Five of the six repairs are idempotent: a second application of
  \<open>fix_cumulative_limit_note\<close>, \<open>fix_termination_note\<close>, \<open>fix_payment_period\<close>,
  \<open>remove_stage_level_note\<close> or \<open>add_continuous_payment_frequency\<close> leaves the case or
  the stage as the first application left it. Each of them tests whether its result is
  already there, and the test recognises what the repair wrote.
\<close>

lemma remove_stage_level_note_idem:
  "remove_stage_level_note (snd (remove_stage_level_note st)) = (False, snd (remove_stage_level_note st))"
  by (simp add: remove_stage_level_note_def)

lemma add_continuous_payment_frequency_idem:
  "snd (add_continuous_payment_frequency (snd (add_continuous_payment_frequency st)))
     = snd (add_continuous_payment_frequency st)"
  by (auto simp: add_continuous_payment_frequency_def cp_nonempty_def split: option.splits)

lemma fix_payment_period_loop_done:
  "\<forall>st \<in> set sts. paymentPeriodStatus st \<noteq> None \<Longrightarrow> fix_payment_period_loop ps sts = (0, sts)"
  by (induction sts) auto

lemma fix_payment_period_loop_sets:
  "fix_payment_period_loop ps sts = (n, sts') \<Longrightarrow> \<forall>st \<in> set sts'. paymentPeriodStatus st \<noteq> None"
proof (induction sts arbitrary: n sts')
  case Nil
  then show ?case by simp
next
  case (Cons st sts)
  obtain m rest where r: "fix_payment_period_loop ps sts = (m, rest)"
    by (cases "fix_payment_period_loop ps sts") auto
  from Cons.IH [OF r] have ih: "\<forall>s \<in> set rest. paymentPeriodStatus s \<noteq> None" .
  from Cons.prems r have "sts' = st # rest \<and> paymentPeriodStatus st \<noteq> None
      \<or> sts' = fix_payment_period_stage ps st # rest"
    by (auto split: if_splits)
  moreover have "paymentPeriodStatus (fix_payment_period_stage ps st) \<noteq> None"
    by (simp add: fix_payment_period_stage_def Let_def)
  ultimately show ?case using ih by auto
qed

lemma fix_payment_period_idem:
  "fix_payment_period (snd (fix_payment_period c)) = (0, snd (fix_payment_period c))"
proof (cases "detect_payment_period (get_str (zeren_yuanwen c))")
  case None
  then show ?thesis by (simp add: fix_payment_period_def)
next
  case (Some ps)
  show ?thesis
  proof (cases "payoutAmount c")
    case None
    with Some show ?thesis by (simp add: fix_payment_period_def)
  next
    case (Some sts)
    obtain n sts' where l: "fix_payment_period_loop ps sts = (n, sts')"
      by (cases "fix_payment_period_loop ps sts") auto
    from fix_payment_period_loop_sets [OF l] have "fix_payment_period_loop ps sts' = (0, sts')"
      by (rule fix_payment_period_loop_done)
    with l Some \<open>detect_payment_period (get_str (zeren_yuanwen c)) = Some ps\<close>
    show ?thesis by (simp add: fix_payment_period_def)
  qed
qed

lemma str_in_mid: "str_in sub (a @ sub @ b)"
  unfolding str_in_iff by blast

lemma ms_CatI:
  "(g1, m) \<in> set (ms a s) \<Longrightarrow> (g2, r) \<in> set (ms b m) \<Longrightarrow> (g1 @ g2, r) \<in> set (ms (Cat a b) s)"
  unfolding ms_Cat_iff by blast

lemma limit_phrase_found:
  "list_ex (\<lambda>p. re_found p ([0x7ED9, 0x4ED8, 0x4EE5, 0x31, 0x6B21, 0x4E3A, 0x9650] @ rest)) payout_limit_patterns"
proof -
  let ?p = "cats [Lit [0x7ED9, 0x4ED8, 0x4EE5], dot_1_3, Lit [0x6B21, 0x4E3A, 0x9650]]"
  have 1: "([], [0x31] @ [0x6B21, 0x4E3A, 0x9650] @ rest) \<in> set (ms (Lit [0x7ED9, 0x4ED8, 0x4EE5]) ([0x7ED9, 0x4ED8, 0x4EE5] @ [0x31] @ [0x6B21, 0x4E3A, 0x9650] @ rest))"
    unfolding ms_Lit_iff by simp
  have 2: "([], [0x6B21, 0x4E3A, 0x9650] @ rest) \<in> set (ms dot_1_3 ([0x31] @ [0x6B21, 0x4E3A, 0x9650] @ rest))"
    unfolding ms_Rep_iff by (intro conjI exI [of _ "[0x31]"]) auto
  have 3: "([], rest) \<in> set (ms (Lit [0x6B21, 0x4E3A, 0x9650]) ([0x6B21, 0x4E3A, 0x9650] @ rest))"
    unfolding ms_Lit_iff by simp
  from ms_CatI [OF 1 ms_CatI [OF 2 3]]
  have "ms ?p (drop 0 ([0x7ED9, 0x4ED8, 0x4EE5, 0x31, 0x6B21, 0x4E3A, 0x9650] @ rest)) \<noteq> []" by auto
  then have "re_search ?p ([0x7ED9, 0x4ED8, 0x4EE5, 0x31, 0x6B21, 0x4E3A, 0x9650] @ rest) \<noteq> None"
    by (rule re_search_found) simp
  then show ?thesis by (simp add: payout_limit_patterns_def re_found_def)
qed

lemma fix_termination_note_idem:
  "fix_termination_note (snd (fix_termination_note c)) = (False, snd (fix_termination_note c))"
proof -
  have "list_ex (\<lambda>p. re_found p [0x7ED9, 0x4ED8, 0x4EE5, 0x31, 0x6B21, 0x4E3A, 0x9650]) payout_limit_patterns"
    using limit_phrase_found [of "[]"] by simp
  moreover have "list_ex (\<lambda>p. re_found p ([0x7ED9, 0x4ED8, 0x4EE5, 0x31, 0x6B21, 0x4E3A, 0x9650, 0xFF1B] @ n)) payout_limit_patterns" for n
    using limit_phrase_found [of "[0xFF1B] @ n"] by simp
  ultimately show ?thesis
    by (simp add: fix_termination_note_def Let_def get_str_def)
qed

lemma fix_cumulative_limit_note_idem:
  assumes "fix_cumulative_limit_note c = Inr (r, c')"
  shows "fix_cumulative_limit_note c' = Inr (False, c')"
proof -
  obtain v where v: "has_cumulative_limit (get_str (zeren_yuanwen c)) = Inr v"
    using has_cumulative_limit_total by blast
  define x where "x = [0x7D2F, 0x8BA1, 0x6700, 0x591A, 0x8D54] @ py_str v @ [0x6B21]"
  define nt where "nt = get_str (case_note c)"
  define already where "already \<longleftrightarrow>
     (str_in [0x7D2F, 0x8BA1] nt \<and> (str_in [0x6B21] nt \<or> str_in (py_str v) nt))
     \<or> (str_in [0x6700, 0x591A] nt \<and> str_in (py_str v) nt)"
  define new where "new =
     (if nt \<noteq> [] then
        (if str_in [0x6BCF, 0x79CD] nt then
           (case py_split1 [0xFF1B] nt of
              p0 # p1 # _ \<Rightarrow> p0 @ [0xFF1B] @ x @ [0xFF1B] @ p1
            | _ \<Rightarrow> nt @ [0xFF1B] @ x)
         else x @ [0xFF1B] @ nt)
      else x)"
  have x1: "str_in [0x7D2F, 0x8BA1] (a @ x @ b)" for a b
  proof -
    have "a @ x @ b = a @ [0x7D2F, 0x8BA1] @ ([0x6700, 0x591A, 0x8D54] @ py_str v @ [0x6B21] @ b)" by (simp add: x_def)
    then show ?thesis using str_in_mid by metis
  qed
  have x2: "str_in [0x6B21] (a @ x @ b)" for a b
  proof -
    have "a @ x @ b = (a @ [0x7D2F, 0x8BA1, 0x6700, 0x591A, 0x8D54] @ py_str v) @ [0x6B21] @ b" by (simp add: x_def)
    then show ?thesis using str_in_mid by metis
  qed
  have unfold: "fix_cumulative_limit_note c =
      (if \<not> truthy v \<or> already then Inr (False, c)
       else Inr (True, c\<lparr>case_note := Some new\<rparr>))"
    unfolding fix_cumulative_limit_note_def Let_def v new_def x_def nt_def already_def
    by (simp split: list.splits)
  have shape: "\<exists>a b. new = a @ x @ b"
  proof (cases "nt = []")
    case True
    then have "new = [] @ x @ []" by (simp add: new_def)
    then show ?thesis by blast
  next
    case ne: False
    show ?thesis
    proof (cases "str_in [0x6BCF, 0x79CD] nt")
      case False
      with ne have "new = [] @ x @ ([0xFF1B] @ nt)" by (simp add: new_def)
      then show ?thesis by blast
    next
      case True
      show ?thesis
      proof (cases "py_split1 [0xFF1B] nt")
        case Nil
        with True ne have "new = (nt @ [0xFF1B]) @ x @ []" by (simp add: new_def)
        then show ?thesis by blast
      next
        case (Cons p0 ps)
        show ?thesis
        proof (cases ps)
          case Nil
          with Cons True ne have "new = (nt @ [0xFF1B]) @ x @ []" by (simp add: new_def)
          then show ?thesis by blast
        next
          case (Cons p1 ps')
          with \<open>py_split1 [0xFF1B] nt = p0 # ps\<close> True ne
          have "new = (p0 @ [0xFF1B]) @ x @ ([0xFF1B] @ p1)" by (simp add: new_def)
          then show ?thesis by blast
        qed
      qed
    qed
  qed
  show ?thesis
  proof (cases "\<not> truthy v \<or> already")
    case True
    with unfold assms have "c' = c" by simp
    with True unfold show ?thesis by simp
  next
    case False
    from shape obtain a b where ab: "new = a @ x @ b" by blast
    from False unfold assms have "c' = c\<lparr>case_note := Some new\<rparr>" by simp
    with ab have c': "c' = c\<lparr>case_note := Some (a @ x @ b)\<rparr>" by simp
    have t: "zeren_yuanwen c' = zeren_yuanwen c" and n: "get_str (case_note c') = a @ x @ b"
      using c' by (simp_all add: get_str_def)
    from v t have v': "has_cumulative_limit (get_str (zeren_yuanwen c')) = Inr v" by simp
    from False have tv: "truthy v" by simp
    show ?thesis
      unfolding fix_cumulative_limit_note_def Let_def v' n
      using tv x1 [of a b] x2 [of a b] by simp
  qed
qed

lemma fix_description_completeness_complete:
  "fst (check_description_completeness st yuanwen) \<Longrightarrow> fix_description_completeness st yuanwen = None"
  by (cases "check_description_completeness st yuanwen")
     (simp add: fix_description_completeness_def)

text \<open>
  Claim C2 says that a second run of the repairs with the same findings changes nothing.
  For the finding \<open>incomplete_description\<close> the code re-synthesizes the description and
  cuts the payout phrase out of the old description, from the first [U+6309] to the end.
  After one repair that tail already ends in the suffix of the continuous payment,
  [U+FF08 U+5206]3[U+6B21 U+FF09]. The stage below stays incomplete after the repair (its ratio, 50,
  is in no description the repair can produce), so the second run repairs it again and
  appends the suffix a second time. \<open>run_auto_checks\<close> reports exactly this finding for
  the case, before and after the first repair.
\<close>

theorem apply_fixes_twice_differs:
  "run_auto_checks [yearly_case] = Inr [yearly_finding]
   \<and> apply_fixes [yearly_finding] [yearly_case] = Inr (1, [with_description yearly_once])
   \<and> run_auto_checks [with_description yearly_once] = Inr [yearly_finding]
   \<and> apply_fixes [yearly_finding] [with_description yearly_once]
       = Inr (1, [with_description yearly_twice])
   \<and> with_description yearly_twice \<noteq> with_description yearly_once"
  by code_simp



end
